theory Spec2Isabelle
  imports Complex_Main
begin

section \<open>Data model of the NeuS renderer mixin\<close>

text \<open>
  The development embeds \<^verbatim>\<open>nr3d_lib/models/fields/neus/renderer_mixin.py\<close>.
  Floating point numbers are idealised as \<^typ>\<open>real\<close>; a tensor is its shape with its
  elements, a 3-vector a triple. Python exceptions are values of \<open>error\<close>; every
  operation returns its outcome together with the state it leaves behind, so that what
  happened before a raise stays visible.
\<close>

type_synonym vec3 = "real \<times> real \<times> real"

type_synonym aabb = "vec3 \<times> vec3"

datatype error =
    AssertionError string
  | NotImplementedError
  | RuntimeError string
  | AttributeError string
  | TypeError string
  | KeyError string
  | IndexError
  | ZeroDivisionError

record tensor =
  shape :: "nat list"
  elems :: "real list"

text \<open>A keyword argument of \<^verbatim>\<open>ray_test\<close>: a tensor, or any other Python value.\<close>

datatype extra_val = TensorVal tensor | OtherVal real

record ray_input =
  rays_o :: tensor
  rays_d :: tensor
  near :: "extra_val option"
  far :: "extra_val option"
  extra_ray_data :: "(string \<times> extra_val) list"

record ray_tested =
  num_rays :: nat
  rays_inds :: "nat list"
  rt_rays_o :: "vec3 list"
  rt_rays_d :: "vec3 list"
  rt_near :: "real list"
  rt_far :: "real list"
  rays_ts :: "real list option"
  rays_fidx :: "real list option"

text \<open>
  The volume buffer a sampler returns: \<^verbatim>\<open>{'type': 'empty'}\<close>, a batched buffer
  (\<^verbatim>\<open>[num_rays_hit, num_samples_per_ray]\<close> tensors, one row per hit ray) or a packed
  buffer (flat tensors with \<^verbatim>\<open>pack_infos_hit\<close>, one (offset, count) pair per hit ray).
  The optional keys \<^verbatim>\<open>rgb\<close>, \<^verbatim>\<open>nablas\<close> and \<^verbatim>\<open>vw\<close> are options.
\<close>

record batched_buffer =
  b_rays_inds_hit :: "nat list"
  b_t :: "real list list"
  b_opacity_alpha :: "real list list"
  b_rgb :: "vec3 list list option"
  b_nablas :: "vec3 list list option"
  b_vw :: "real list list option"

record packed_buffer =
  p_rays_inds_hit :: "nat list"
  p_pack_infos_hit :: "(nat \<times> nat) list"
  p_t :: "real list"
  p_opacity_alpha :: "real list"
  p_rgb :: "vec3 list option"
  p_nablas :: "vec3 list option"
  p_vw :: "real list option"

datatype volume_buffer =
    EmptyBuffer
  | BatchedBuffer batched_buffer
  | PackedBuffer packed_buffer

text \<open>The acceleration structure is opaque: the model keeps what its queries return.\<close>

record accel_struct =
  training_granularity :: int
  try_shrink :: aabb
  debug_stats :: "string option"

text \<open>Calls into the collaborators (network, acceleration structure, space, samplers,
  compositing kernels), in the order they are made.\<close>

datatype event =
    SuperForwardSdf "vec3 list"
  | SuperForwardSdfNablas "vec3 list"
  | AccelCollectSamples "vec3 list" "real list"
  | SuperTrainingInitialize
  | AccelInit
  | SuperTrainingBeforePerStep int
  | AccelStep int
  | SuperTrainingAfterPerStep int
  | AccelTryShrink
  | SuperRescaleVolume aabb
  | AccelRescaleVolume aabb
  | SpaceRescaleVolume aabb
  | LogShrink aabb aabb
  | SpaceRayTest ray_input
  | AccelDebugStats
  | SamplerCall string
  | RayAlphaToVw
  | PackedAlphaToVw

text \<open>
  The renderer object (\<^verbatim>\<open>self\<close>) with the part of the Python heap the claims need:
  \<open>store\<close> holds the volume-buffer dictionaries, addressed by their index, and
  \<open>trace\<close> the collaborator calls made so far.
\<close>

record state =
  training :: bool
  accel :: "accel_struct option"
  space_aabb :: aabb
  upsample_s_divisor :: real
  it :: "int option"
  shrink_milestones :: "int list"
  use_ts :: bool
  use_fidx :: bool
  lipshitz_bound_full :: "real option"
  trace :: "event list"
  store :: "volume_buffer list"

type_synonym 'a outcome = "(error + 'a) \<times> state"

definition emit :: "event \<Rightarrow> state \<Rightarrow> state" where
  "emit e s = s\<lparr>trace := trace s @ [e]\<rparr>"

section \<open>Collaborators that are not part of the mixin\<close>

type_synonym fwd_kwargs = "(string \<times> real list) list"

record query_details =
  qd_entries :: "(string \<times> real) list"

text \<open>
  A sampler of \<^verbatim>\<open>nr3d_lib.graphics.neus\<close>: from the tested rays, \<^verbatim>\<open>with_rgb\<close>,
  \<^verbatim>\<open>with_normal\<close>, \<^verbatim>\<open>upsample_s_divisor\<close>, \<^verbatim>\<open>perturb\<close> and, when it is passed,
  \<^verbatim>\<open>forward_inv_s\<close>, to the volume buffer and the query details.
\<close>

type_synonym sampler =
  "ray_tested \<Rightarrow> bool \<Rightarrow> bool \<Rightarrow> real \<Rightarrow> bool \<Rightarrow> real option \<Rightarrow> volume_buffer \<times> query_details"

record collaborators =
  super_forward_sdf :: "vec3 list \<Rightarrow> fwd_kwargs \<Rightarrow> real list"
  super_forward_sdf_nablas :: "vec3 list \<Rightarrow> fwd_kwargs \<Rightarrow> real list \<times> vec3 list"
  super_training_initialize :: bool
  space_ray_test :: "ray_input \<Rightarrow> ray_tested"
  self_forward_inv_s :: real
  neus_ray_query_march_occ_multi_upsample :: sampler
  neus_ray_query_march_occ_multi_upsample_compressed :: sampler
  neus_ray_query_coarse_multi_upsample :: sampler
  neus_ray_query_sphere_trace :: sampler

section \<open>Field evaluation and the training hooks\<close>

text \<open>\<^verbatim>\<open>forward_sdf\<close>: the network's SDF, fed back to the acceleration structure while training.\<close>

definition forward_sdf ::
  "collaborators \<Rightarrow> state \<Rightarrow> vec3 list \<Rightarrow> bool \<Rightarrow> fwd_kwargs \<Rightarrow> (real list) outcome" where
  "forward_sdf c s x skip_accel kwargs =
     (let ret = super_forward_sdf c x kwargs;
          s1 = emit (SuperForwardSdf x) s
      in if training s1 \<and> \<not> skip_accel \<and> accel s1 \<noteq> None
         then (Inr ret, emit (AccelCollectSamples x ret) s1)
         else (Inr ret, s1))"

definition forward_sdf_nablas ::
  "collaborators \<Rightarrow> state \<Rightarrow> vec3 list \<Rightarrow> bool \<Rightarrow> fwd_kwargs \<Rightarrow> (real list \<times> vec3 list) outcome" where
  "forward_sdf_nablas c s x skip_accel kwargs =
     (let ret = super_forward_sdf_nablas c x kwargs;
          s1 = emit (SuperForwardSdfNablas x) s
      in if training s1 \<and> \<not> skip_accel \<and> accel s1 \<noteq> None
         then (Inr ret, emit (AccelCollectSamples x (fst ret)) s1)
         else (Inr ret, s1))"

definition training_initialize :: "collaborators \<Rightarrow> state \<Rightarrow> bool \<Rightarrow> bool outcome" where
  "training_initialize c s skip_accel =
     (let updated = super_training_initialize c;
          s1 = emit SuperTrainingInitialize s
      in if \<not> skip_accel \<and> accel s1 \<noteq> None
         then (Inr updated, emit AccelInit s1)
         else (Inr updated, s1))"

text \<open>Python's \<^verbatim>\<open>2 ** g\<close> for an integer \<^verbatim>\<open>g\<close>.\<close>

definition pow2 :: "int \<Rightarrow> real" where
  "pow2 g = (if 0 \<le> g then 2 ^ nat g else 1 / 2 ^ nat (- g))"

definition training_before_per_step :: "state \<Rightarrow> int \<Rightarrow> bool \<Rightarrow> unit outcome" where
  "training_before_per_step s cur_it skip_accel =
     (let s1 = s\<lparr>it := Some cur_it\<rparr>;
          s2 = emit (SuperTrainingBeforePerStep cur_it) s1
      in case accel s2 of
           None \<Rightarrow> (Inr (), s2)
         | Some a \<Rightarrow>
             if skip_accel then (Inr (), s2)
             else (let s3 = s2\<lparr>upsample_s_divisor := pow2 (training_granularity a)\<rparr>
                   in if training s3 then (Inr (), emit (AccelStep cur_it) s3)
                      else (Inr (), s3)))"

text \<open>
  \<^verbatim>\<open>shrink\<close> reads \<^verbatim>\<open>self.accel.try_shrink\<close> without a check: on \<^verbatim>\<open>None\<close> the
  attribute access raises.
\<close>

definition shrink :: "state \<Rightarrow> unit outcome" where
  "shrink s =
     (let old_aabb = space_aabb s
      in case accel s of
           None \<Rightarrow> (Inl (AttributeError ''try_shrink''), s)
         | Some a \<Rightarrow>
             (let new_aabb = try_shrink a;
                  s1 = emit AccelTryShrink s;
                  s2 = emit (SuperRescaleVolume new_aabb) s1;
                  s3 = emit (AccelRescaleVolume new_aabb) s2;
                  s4 = (emit (SpaceRescaleVolume new_aabb) s3)\<lparr>space_aabb := new_aabb\<rparr>
              in (Inr (), emit (LogShrink old_aabb new_aabb) s4)))"

definition training_after_per_step :: "state \<Rightarrow> int \<Rightarrow> bool \<Rightarrow> unit outcome" where
  "training_after_per_step s cur_it skip_accel =
     (let s1 = emit (SuperTrainingAfterPerStep cur_it) s
      in if \<not> skip_accel \<and> accel s1 \<noteq> None
         then (if cur_it \<in> set (shrink_milestones s1) then shrink s1 else (Inr (), s1))
         else (Inr (), s1))"

section \<open>Ray test\<close>

text \<open>The loop over \<^verbatim>\<open>extra_ray_data.items()\<close>; \<^verbatim>\<open>v.shape[0]\<close> of a 0-dim tensor raises.\<close>

fun check_extra_ray_data :: "nat \<Rightarrow> (string \<times> extra_val) list \<Rightarrow> error + unit" where
  "check_extra_ray_data n [] = Inr ()"
| "check_extra_ray_data n ((k, OtherVal x) # kvs) = check_extra_ray_data n kvs"
| "check_extra_ray_data n ((k, TensorVal v) # kvs) =
     (case shape v of
        [] \<Rightarrow> Inl IndexError
      | m # ms \<Rightarrow> if m = n then check_extra_ray_data n kvs else Inl (AssertionError k))"

definition ray_test :: "collaborators \<Rightarrow> state \<Rightarrow> ray_input \<Rightarrow> ray_tested outcome" where
  "ray_test c s ri =
     (if \<not> (length (shape (rays_o ri)) = 2 \<and> length (shape (rays_d ri)) = 2)
      then (Inl (AssertionError ''rays_o rays_d''), s)
      else case check_extra_ray_data (hd (shape (rays_o ri))) (extra_ray_data ri) of
             Inl e \<Rightarrow> (Inl e, s)
           | Inr u \<Rightarrow> (Inr (space_ray_test c ri), emit (SpaceRayTest ri) s))"

section \<open>Sequencing\<close>

definition and_then :: "'a outcome \<Rightarrow> ('a \<Rightarrow> state \<Rightarrow> 'b outcome) \<Rightarrow> 'b outcome" where
  "and_then m f = (case m of (Inl e, s) \<Rightarrow> (Inl e, s) | (Inr x, s) \<Rightarrow> f x s)"

definition lift :: "error + 'a \<Rightarrow> state \<Rightarrow> 'a outcome" where
  "lift x s = (x, s)"

section \<open>Vectors and arrays\<close>

definition vzero :: vec3 where
  "vzero = (0, 0, 0)"

fun vadd :: "vec3 \<Rightarrow> vec3 \<Rightarrow> vec3" where
  "vadd (a, b, c) (d, e, f) = (a + d, b + e, c + f)"

fun vscale :: "real \<Rightarrow> vec3 \<Rightarrow> vec3" where
  "vscale w (a, b, c) = (w * a, w * b, w * c)"

definition vsum :: "vec3 list \<Rightarrow> vec3" where
  "vsum vs = foldr vadd vs vzero"

text \<open>\<^verbatim>\<open>clamp(-1, 1)\<close>, component-wise.\<close>

definition clamp1 :: "real \<Rightarrow> real" where
  "clamp1 x = min (max x (- 1)) 1"

fun vclamp :: "vec3 \<Rightarrow> vec3" where
  "vclamp (a, b, c) = (clamp1 a, clamp1 b, clamp1 c)"

text \<open>\<^verbatim>\<open>F.normalize(v, dim=-1)\<close> of torch: \<^verbatim>\<open>v / max(||v||_2, 1e-12)\<close>.\<close>

fun vnorm :: "vec3 \<Rightarrow> real" where
  "vnorm (a, b, c) = sqrt (a * a + b * b + c * c)"

fun normalize_vec :: "vec3 \<Rightarrow> vec3" where
  "normalize_vec (a, b, c) =
     (let d = max (vnorm (a, b, c)) (1 / 10 ^ 12) in (a / d, b / d, c / d))"

text \<open>
  An array of the rendered output: its shape (the batch prefix; a trailing axis of
  size 3 is the element type) and its elements along the first axis.
\<close>

record 'a ndarray =
  nd_shape :: "nat list"
  nd_data :: "'a list"

definition zeros :: "nat list \<Rightarrow> 'a \<Rightarrow> 'a ndarray" where
  "zeros prefix z = \<lparr>nd_shape = prefix, nd_data = replicate (prod_list prefix) z\<rparr>"

text \<open>
  \<^verbatim>\<open>arr[inds] = vals\<close> with an index tensor. On a one-dimensional batch the values are
  written position by position (a single value is broadcast); an index out of range or a
  value count that does not fit raises. For a batch prefix of any other rank torch raises
  the shape error unless the values happen to broadcast along the trailing axes; the
  embedding covers the documented \<^verbatim>\<open>[num_total_rays, 3]\<close> ray batch and gives the
  shape error otherwise.
\<close>

definition index_put :: "'a ndarray \<Rightarrow> nat list \<Rightarrow> 'a list \<Rightarrow> error + 'a ndarray" where
  "index_put arr inds vals =
     (if length (nd_shape arr) \<noteq> 1 then Inl (RuntimeError ''shape mismatch'')
      else if \<not> list_all (\<lambda>i. i < length (nd_data arr)) inds then Inl IndexError
      else if length vals = length inds
        then Inr (arr\<lparr>nd_data := fold (\<lambda>(i, v) d. d[i := v]) (zip inds vals) (nd_data arr)\<rparr>)
      else if length vals = 1
        then Inr (arr\<lparr>nd_data := fold (\<lambda>i d. d[i := hd vals]) inds (nd_data arr)\<rparr>)
      else Inl (RuntimeError ''shape mismatch''))"

section \<open>Compositing kernels\<close>

text \<open>
  Modelled from the spec: \<^verbatim>\<open>ray_alpha_to_vw\<close> of \<^verbatim>\<open>nr3d_lib.graphics.nerf\<close> is not
  among the sources. The spec gives the recurrence: the weight of a sample is its alpha
  times the transmittance accumulated from the preceding samples of the same ray, and
  the transmittance is multiplied by \<open>1 - alpha\<close> after each sample.
\<close>

fun alpha_to_vw_from :: "real \<Rightarrow> real list \<Rightarrow> real list" where
  "alpha_to_vw_from T [] = []"
| "alpha_to_vw_from T (a # as) = a * T # alpha_to_vw_from (T * (1 - a)) as"

definition ray_alpha_to_vw :: "real list list \<Rightarrow> real list list" where
  "ray_alpha_to_vw alpha = map (alpha_to_vw_from 1) alpha"

text \<open>The samples of one ray in a packed tensor, by its (offset, count) pair.\<close>

definition segment :: "nat \<times> nat \<Rightarrow> 'a list \<Rightarrow> 'a list" where
  "segment p xs = take (snd p) (drop (fst p) xs)"

definition put_segment :: "nat \<Rightarrow> 'a list \<Rightarrow> 'a list \<Rightarrow> 'a list" where
  "put_segment off ys xs = take (length xs) (take off xs @ ys @ drop (off + length ys) xs)"

text \<open>
  Modelled from the spec: the packed kernels of \<^verbatim>\<open>nr3d_lib.graphics.pack_ops\<close> and
  \<^verbatim>\<open>nr3d_lib.graphics.nerf\<close> are not among the sources. The spec describes them as
  segmented operations keyed by the pack infos: \<^verbatim>\<open>packed_alpha_to_vw\<close> runs the
  compositing recurrence inside each ray's segment, \<^verbatim>\<open>packed_sum\<close> sums each segment,
  \<^verbatim>\<open>packed_div\<close> divides each sample by its ray's total. \<open>packed_map\<close> rewrites the
  segments one ray after the other.
\<close>

definition packed_map ::
  "('b \<Rightarrow> 'a list \<Rightarrow> 'a list) \<Rightarrow> ((nat \<times> nat) \<times> 'b) list \<Rightarrow> 'a list \<Rightarrow> 'a list \<Rightarrow> 'a list" where
  "packed_map f segs xs out =
     fold (\<lambda>(p, b) acc. put_segment (fst p) (f b (segment p xs)) acc) segs out"

definition packed_alpha_to_vw :: "real list \<Rightarrow> (nat \<times> nat) list \<Rightarrow> real list" where
  "packed_alpha_to_vw alpha pack_infos =
     packed_map (\<lambda>u. alpha_to_vw_from 1) (map (\<lambda>p. (p, ())) pack_infos) alpha
       (replicate (length alpha) 0)"

definition packed_sum :: "real list \<Rightarrow> (nat \<times> nat) list \<Rightarrow> real list" where
  "packed_sum xs pack_infos = map (\<lambda>p. sum_list (segment p xs)) pack_infos"

definition packed_sum3 :: "vec3 list \<Rightarrow> (nat \<times> nat) list \<Rightarrow> vec3 list" where
  "packed_sum3 xs pack_infos = map (\<lambda>p. vsum (segment p xs)) pack_infos"

definition packed_div :: "real list \<Rightarrow> real list \<Rightarrow> (nat \<times> nat) list \<Rightarrow> real list" where
  "packed_div xs totals pack_infos =
     packed_map (\<lambda>d. map (\<lambda>x. x / d)) (zip pack_infos totals) xs xs"

section \<open>Ray query\<close>

text \<open>
  The options \<^verbatim>\<open>ray_query\<close> reads from its config; an option read with
  \<^verbatim>\<open>config.get\<close> is absent or present. \<^verbatim>\<open>query_param\<close> is handed to the sampler
  untouched and is part of the sampler here.
\<close>

record config =
  query_mode :: string
  with_rgb :: bool
  with_normal :: bool
  perturb :: bool
  forward_inv_s :: "real option"
  depth_use_normalized_vw :: "bool option"
  with_near_sdf :: "bool option"

record details =
  d_accel :: "string option"
  d_inv_s :: real
  d_s :: real
  d_radiance_lipshitz_bound :: "real option"
  d_query :: "(string \<times> real) list"
  d_near_sdf :: "real list option"

record rendered =
  depth_volume :: "real ndarray"
  mask_volume :: "real ndarray"
  rgb_volume :: "vec3 ndarray option"
  normals_volume :: "vec3 ndarray option"

text \<open>\<^verbatim>\<open>raw_ret\<close>: the key \<^verbatim>\<open>volume_buffer\<close> holds a reference into the store.\<close>

record raw_ret =
  rr_volume_buffer :: "nat option"
  rr_details :: "details option"
  rr_rendered :: "rendered option"

definition put_buffer :: "nat \<Rightarrow> volume_buffer \<Rightarrow> state \<Rightarrow> state" where
  "put_buffer a b s = s\<lparr>store := (store s)[a := b]\<rparr>"

definition eps_vw :: real where
  "eps_vw = 1 / 10 ^ 10"

definition get_depth_use_normalized_vw :: "config \<Rightarrow> bool" where
  "get_depth_use_normalized_vw cfg =
     (case depth_use_normalized_vw cfg of None \<Rightarrow> True | Some b \<Rightarrow> b)"

subsection \<open>Rendering a batched buffer\<close>

definition dot_rows :: "real list \<Rightarrow> real list \<Rightarrow> real" where
  "dot_rows ws ts = sum_list (map2 (*) ws ts)"

definition weighted_vsum :: "real list \<Rightarrow> vec3 list \<Rightarrow> vec3" where
  "weighted_vsum ws vs = vsum (map2 vscale ws vs)"

definition batched_depth :: "config \<Rightarrow> real list list \<Rightarrow> real list list \<Rightarrow> real list" where
  "batched_depth cfg vw t =
     (if get_depth_use_normalized_vw cfg
      then (let vw_normalized = map (\<lambda>row. map (\<lambda>w. w / (sum_list row + eps_vw)) row) vw
            in map2 dot_rows vw_normalized t)
      else map2 dot_rows vw t)"

definition batched_rgb ::
  "config \<Rightarrow> batched_buffer \<Rightarrow> real list list \<Rightarrow> rendered \<Rightarrow> state \<Rightarrow> rendered outcome" where
  "batched_rgb cfg buf vw r s =
     (if with_rgb cfg then
        (case rgb_volume r of
           None \<Rightarrow> (Inl (KeyError ''rgb_volume''), s)
         | Some arr \<Rightarrow>
            (case b_rgb buf of
               None \<Rightarrow> (Inl (KeyError ''rgb''), s)
             | Some rgb \<Rightarrow>
                and_then (lift (index_put arr (b_rays_inds_hit buf) (map2 weighted_vsum vw rgb)) s)
                  (\<lambda>arr1 s1. (Inr (r\<lparr>rgb_volume := Some arr1\<rparr>), s1))))
      else (Inr r, s))"

text \<open>
  At inference \<^verbatim>\<open>clamp_\<close> overwrites the buffer's \<^verbatim>\<open>nablas\<close> tensor before
  \<^verbatim>\<open>F.normalize\<close> makes a new one.
\<close>

definition batched_normals ::
  "config \<Rightarrow> nat \<Rightarrow> batched_buffer \<Rightarrow> real list list \<Rightarrow> rendered \<Rightarrow> state \<Rightarrow> rendered outcome" where
  "batched_normals cfg a buf vw r s =
     (if with_normal cfg then
        (case normals_volume r of
           None \<Rightarrow> (Inl (KeyError ''normals_volume''), s)
         | Some arr \<Rightarrow>
            (case b_nablas buf of
               None \<Rightarrow> (Inl (KeyError ''nablas''), s)
             | Some nablas \<Rightarrow>
                if training s then
                  and_then (lift (index_put arr (b_rays_inds_hit buf) (map2 weighted_vsum vw nablas)) s)
                    (\<lambda>arr1 s1. (Inr (r\<lparr>normals_volume := Some arr1\<rparr>), s1))
                else
                  (let clamped = map (map vclamp) nablas;
                       s1 = put_buffer a (BatchedBuffer (buf\<lparr>b_nablas := Some clamped\<rparr>)) s
                   in and_then
                        (lift (index_put arr (b_rays_inds_hit buf)
                           (map2 weighted_vsum vw (map (map normalize_vec) clamped))) s1)
                        (\<lambda>arr1 s2. (Inr (r\<lparr>normals_volume := Some arr1\<rparr>), s2)))))
      else (Inr r, s))"

definition render_batched ::
  "config \<Rightarrow> nat \<Rightarrow> batched_buffer \<Rightarrow> rendered \<Rightarrow> state \<Rightarrow> rendered outcome" where
  "render_batched cfg a buf r s =
     (let rays_inds_hit = b_rays_inds_hit buf;
          vw = ray_alpha_to_vw (b_opacity_alpha buf);
          buf1 = buf\<lparr>b_vw := Some vw\<rparr>;
          s1 = put_buffer a (BatchedBuffer buf1) (emit RayAlphaToVw s);
          vw_sum = map sum_list vw
      in and_then (lift (index_put (mask_volume r) rays_inds_hit vw_sum) s1) (\<lambda>m s2.
         and_then (lift (index_put (depth_volume r) rays_inds_hit (batched_depth cfg vw (b_t buf))) s2)
           (\<lambda>d s3.
         and_then (batched_rgb cfg buf1 vw (r\<lparr>depth_volume := d, mask_volume := m\<rparr>) s3)
           (\<lambda>r3 s4. batched_normals cfg a buf1 vw r3 s4))))"

subsection \<open>Rendering a packed buffer\<close>

definition packed_depth ::
  "config \<Rightarrow> real list \<Rightarrow> real list \<Rightarrow> real list \<Rightarrow> (nat \<times> nat) list \<Rightarrow> real list" where
  "packed_depth cfg vw vw_sum t pack_infos_hit =
     (if get_depth_use_normalized_vw cfg
      then (let vw_normalized = packed_div vw (map (\<lambda>x. x + eps_vw) vw_sum) pack_infos_hit
            in packed_sum (map2 (*) vw_normalized t) pack_infos_hit)
      else packed_sum (map2 (*) vw t) pack_infos_hit)"

definition packed_rgb ::
  "config \<Rightarrow> packed_buffer \<Rightarrow> real list \<Rightarrow> rendered \<Rightarrow> state \<Rightarrow> rendered outcome" where
  "packed_rgb cfg buf vw r s =
     (if with_rgb cfg then
        (case rgb_volume r of
           None \<Rightarrow> (Inl (KeyError ''rgb_volume''), s)
         | Some arr \<Rightarrow>
            (case p_rgb buf of
               None \<Rightarrow> (Inl (KeyError ''rgb''), s)
             | Some rgb \<Rightarrow>
                and_then
                  (lift (index_put arr (p_rays_inds_hit buf)
                     (packed_sum3 (map2 vscale vw rgb) (p_pack_infos_hit buf))) s)
                  (\<lambda>arr1 s1. (Inr (r\<lparr>rgb_volume := Some arr1\<rparr>), s1))))
      else (Inr r, s))"

definition packed_normals ::
  "config \<Rightarrow> nat \<Rightarrow> packed_buffer \<Rightarrow> real list \<Rightarrow> rendered \<Rightarrow> state \<Rightarrow> rendered outcome" where
  "packed_normals cfg a buf vw r s =
     (if with_normal cfg then
        (case normals_volume r of
           None \<Rightarrow> (Inl (KeyError ''normals_volume''), s)
         | Some arr \<Rightarrow>
            (case p_nablas buf of
               None \<Rightarrow> (Inl (KeyError ''nablas''), s)
             | Some nablas \<Rightarrow>
                if training s then
                  and_then
                    (lift (index_put arr (p_rays_inds_hit buf)
                       (packed_sum3 (map2 vscale vw nablas) (p_pack_infos_hit buf))) s)
                    (\<lambda>arr1 s1. (Inr (r\<lparr>normals_volume := Some arr1\<rparr>), s1))
                else
                  (let clamped = map vclamp nablas;
                       s1 = put_buffer a (PackedBuffer (buf\<lparr>p_nablas := Some clamped\<rparr>)) s
                   in and_then
                        (lift (index_put arr (p_rays_inds_hit buf)
                           (packed_sum3 (map2 vscale vw (map normalize_vec clamped))
                              (p_pack_infos_hit buf))) s1)
                        (\<lambda>arr1 s2. (Inr (r\<lparr>normals_volume := Some arr1\<rparr>), s2)))))
      else (Inr r, s))"

definition render_packed ::
  "config \<Rightarrow> nat \<Rightarrow> packed_buffer \<Rightarrow> rendered \<Rightarrow> state \<Rightarrow> rendered outcome" where
  "render_packed cfg a buf r s =
     (let rays_inds_hit = p_rays_inds_hit buf;
          pack_infos_hit = p_pack_infos_hit buf;
          vw = packed_alpha_to_vw (p_opacity_alpha buf) pack_infos_hit;
          buf1 = buf\<lparr>p_vw := Some vw\<rparr>;
          s1 = put_buffer a (PackedBuffer buf1) (emit PackedAlphaToVw s);
          vw_sum = packed_sum vw pack_infos_hit
      in and_then (lift (index_put (mask_volume r) rays_inds_hit vw_sum) s1) (\<lambda>m s2.
         and_then
           (lift (index_put (depth_volume r) rays_inds_hit
              (packed_depth cfg vw vw_sum (p_t buf) pack_infos_hit)) s2)
           (\<lambda>d s3.
         and_then (packed_rgb cfg buf1 vw (r\<lparr>depth_volume := d, mask_volume := m\<rparr>) s3)
           (\<lambda>r3 s4. packed_normals cfg a buf1 vw r3 s4))))"

text \<open>The block under \<^verbatim>\<open>if render_per_obj_individual\<close>, for the buffer stored at \<open>a\<close>.\<close>

definition render_per_obj :: "config \<Rightarrow> nat \<Rightarrow> volume_buffer \<Rightarrow> rendered \<Rightarrow> state \<Rightarrow> rendered outcome" where
  "render_per_obj cfg a vb r s =
     (case vb of
        EmptyBuffer \<Rightarrow> (Inr r, s)
      | BatchedBuffer buf \<Rightarrow> render_batched cfg a buf r s
      | PackedBuffer buf \<Rightarrow> render_packed cfg a buf r s)"

subsection \<open>The sections of \<^verbatim>\<open>ray_query\<close>\<close>

text \<open>Section "Inputs": the tested rays are given, or come from \<^verbatim>\<open>ray_test\<close>.\<close>

definition resolve_inputs ::
  "collaborators \<Rightarrow> ray_input option \<Rightarrow> ray_tested option \<Rightarrow> state \<Rightarrow> ray_tested outcome" where
  "resolve_inputs c ray_input_opt ray_tested_opt s =
     (case ray_tested_opt of
        Some rt \<Rightarrow> (Inr rt, s)
      | None \<Rightarrow>
         (case ray_input_opt of
            None \<Rightarrow> (Inl (AssertionError ''ray_input''), s)
          | Some ri \<Rightarrow> ray_test c s ri))"

definition get_forward_inv_s :: "collaborators \<Rightarrow> config \<Rightarrow> real" where
  "get_forward_inv_s c cfg =
     (case forward_inv_s cfg of None \<Rightarrow> self_forward_inv_s c | Some v \<Rightarrow> v)"

text \<open>
  Section "Prepare outputs": the empty buffer, the details known before any ray is
  queried, and the zero-filled rendered arrays over \<^verbatim>\<open>rays_o.shape[:-1]\<close>.
\<close>

definition prepare_buffer :: "bool \<Rightarrow> state \<Rightarrow> (nat option) outcome" where
  "prepare_buffer return_buffer s =
     (if return_buffer
      then (Inr (Some (length (store s))), s\<lparr>store := store s @ [EmptyBuffer]\<rparr>)
      else (Inr None, s))"

definition prepare_details :: "bool \<Rightarrow> real \<Rightarrow> state \<Rightarrow> (details option) outcome" where
  "prepare_details return_details inv_s s =
     (if return_details then
        (let (stats, s1) =
               (case accel s of
                  None \<Rightarrow> (None, s)
                | Some a \<Rightarrow>
                   (case debug_stats a of
                      None \<Rightarrow> (None, s)
                    | Some st \<Rightarrow> (Some st, emit AccelDebugStats s)))
         in if inv_s = 0 then (Inl ZeroDivisionError, s1)
            else (Inr (Some \<lparr>d_accel = stats, d_inv_s = inv_s, d_s = 1 / inv_s,
                             d_radiance_lipshitz_bound = lipshitz_bound_full s1,
                             d_query = [], d_near_sdf = None\<rparr>), s1))
      else (Inr None, s))"

definition zero_rendered :: "config \<Rightarrow> ray_input \<Rightarrow> rendered" where
  "zero_rendered cfg ri =
     (let prefix_rays = butlast (shape (rays_o ri))
      in \<lparr>depth_volume = zeros prefix_rays 0,
          mask_volume = zeros prefix_rays 0,
          rgb_volume = (if with_rgb cfg then Some (zeros prefix_rays vzero) else None),
          normals_volume = (if with_normal cfg then Some (zeros prefix_rays vzero) else None)\<rparr>)"

definition prepare_rendered ::
  "bool \<Rightarrow> config \<Rightarrow> ray_input option \<Rightarrow> state \<Rightarrow> (rendered option) outcome" where
  "prepare_rendered render_per_obj_individual cfg ray_input_opt s =
     (if render_per_obj_individual then
        (case ray_input_opt of
           None \<Rightarrow> (Inl (TypeError ''ray_input''), s)
         | Some ri \<Rightarrow> (Inr (Some (zero_rendered cfg ri)), s))
      else (Inr None, s))"

text \<open>Section "Ray query": the chain of comparisons on \<^verbatim>\<open>query_mode\<close>.\<close>

definition dispatch_query ::
  "collaborators \<Rightarrow> config \<Rightarrow> ray_tested \<Rightarrow> real \<Rightarrow> state \<Rightarrow> (volume_buffer \<times> query_details) outcome" where
  "dispatch_query c cfg rt inv_s s =
     (let qm = query_mode cfg
      in if qm = ''march_occ_multi_upsample'' then
           (Inr (neus_ray_query_march_occ_multi_upsample c rt (with_rgb cfg) (with_normal cfg)
                   (upsample_s_divisor s) (perturb cfg) (Some inv_s)),
            emit (SamplerCall qm) s)
         else if qm = ''march_occ_multi_upsample_compressed'' then
           (Inr (neus_ray_query_march_occ_multi_upsample_compressed c rt (with_rgb cfg)
                   (with_normal cfg) (upsample_s_divisor s) (perturb cfg) (Some inv_s)),
            emit (SamplerCall qm) s)
         else if qm = ''march_occ_multi_upsample_compressed_strategy'' then
           (Inl NotImplementedError, s)
         else if qm = ''coarse_multi_upsample'' then
           (Inr (neus_ray_query_coarse_multi_upsample c rt (with_rgb cfg) (with_normal cfg)
                   (upsample_s_divisor s) (perturb cfg) (Some inv_s)),
            emit (SamplerCall qm) s)
         else if qm = ''march_occ'' then
           (Inl NotImplementedError, s)
         else if qm = ''sphere_trace'' then
           (Inr (neus_ray_query_sphere_trace c rt (with_rgb cfg) (with_normal cfg)
                   (upsample_s_divisor s) (perturb cfg) None),
            emit (SamplerCall qm) s)
         else (Inl (RuntimeError (''Invalid query_mode='' @ qm)), s))"

text \<open>Section "Calc outputs", details: the sampler's details and the SDF at the near bound.\<close>

definition near_points :: "ray_tested \<Rightarrow> vec3 list" where
  "near_points rt =
     map2 (\<lambda>orig (d, n). vadd orig (vscale n d)) (rt_rays_o rt) (zip (rt_rays_d rt) (rt_near rt))"

definition calc_details ::
  "collaborators \<Rightarrow> config \<Rightarrow> ray_tested \<Rightarrow> query_details \<Rightarrow> details option \<Rightarrow> state
     \<Rightarrow> (details option) outcome" where
  "calc_details c cfg rt qd dopt s =
     (case dopt of
        None \<Rightarrow> (Inr None, s)
      | Some d \<Rightarrow>
         (let d1 = d\<lparr>d_query := qd_entries qd\<rparr>
          in if (case with_near_sdf cfg of None \<Rightarrow> False | Some b \<Rightarrow> b) then
               (if use_ts s \<and> rays_ts rt = None then (Inl (KeyError ''rays_ts''), s)
                else if use_fidx s \<and> rays_fidx rt = None then (Inl (KeyError ''rays_fidx''), s)
                else
                  (let kw_ts = (if use_ts s then [(''ts'', the (rays_ts rt))] else []);
                       kw_fidx = (if use_fidx s then [(''fidx'', the (rays_fidx rt))] else [])
                   in and_then (forward_sdf c s (near_points rt) False (kw_ts @ kw_fidx))
                        (\<lambda>sdf s1. (Inr (Some (d1\<lparr>d_near_sdf := Some sdf\<rparr>)), s1))))
             else (Inr (Some d1), s)))"

subsection \<open>\<^verbatim>\<open>ray_query\<close>\<close>

definition ray_query ::
  "collaborators \<Rightarrow> state \<Rightarrow> ray_input option \<Rightarrow> ray_tested option \<Rightarrow> config
     \<Rightarrow> bool \<Rightarrow> bool \<Rightarrow> bool \<Rightarrow> raw_ret outcome" where
  "ray_query c s ray_input_opt ray_tested_opt cfg return_buffer return_details
       render_per_obj_individual =
     and_then (resolve_inputs c ray_input_opt ray_tested_opt s) (\<lambda>rt s0.
       let inv_s = get_forward_inv_s c cfg in
       and_then (prepare_buffer return_buffer s0) (\<lambda>vb_ref s1.
       and_then (prepare_details return_details inv_s s1) (\<lambda>dopt s2.
       and_then (prepare_rendered render_per_obj_individual cfg ray_input_opt s2) (\<lambda>ropt s3.
         let raw0 = \<lparr>rr_volume_buffer = vb_ref, rr_details = dopt, rr_rendered = ropt\<rparr>
         in if num_rays rt = 0 then (Inr raw0, s3)
            else
              and_then (dispatch_query c cfg rt inv_s s3) (\<lambda>(volume_buffer, qd) s4.
                let a = length (store s4);
                    s5 = s4\<lparr>store := store s4 @ [volume_buffer]\<rparr>;
                    raw1 = (if return_buffer then raw0\<lparr>rr_volume_buffer := Some a\<rparr> else raw0)
                in and_then (calc_details c cfg rt qd dopt s5) (\<lambda>dopt1 s6.
                     let raw2 = raw1\<lparr>rr_details := dopt1\<rparr>
                     in case ropt of
                          None \<Rightarrow> (Inr raw2, s6)
                        | Some r \<Rightarrow>
                           and_then (render_per_obj cfg a volume_buffer r s6)
                             (\<lambda>r1 s7. (Inr (raw2\<lparr>rr_rendered := Some r1\<rparr>), s7))))))))"

section \<open>Notions used by the statements\<close>

text \<open>The collaborator calls a run adds to the trace.\<close>

definition new_events :: "state \<Rightarrow> state \<Rightarrow> event list" where
  "new_events s s' = drop (length (trace s)) (trace s')"

text \<open>What the sampler selected by the config returns for the tested rays.\<close>

definition sampler_result ::
  "collaborators \<Rightarrow> config \<Rightarrow> ray_tested \<Rightarrow> state \<Rightarrow> error + volume_buffer \<times> query_details" where
  "sampler_result c cfg rt s = fst (dispatch_query c cfg rt (get_forward_inv_s c cfg) s)"

text \<open>
  The details can be assembled: the sharpness is not zero (\<^verbatim>\<open>1. / inv_s\<close>) and, when
  the SDF at the near bound is asked for, the per-ray attributes the network uses are
  among the tested rays.
\<close>

definition details_available :: "collaborators \<Rightarrow> config \<Rightarrow> ray_tested \<Rightarrow> state \<Rightarrow> bool" where
  "details_available c cfg rt s =
     (get_forward_inv_s c cfg \<noteq> 0 \<and>
      (if (case with_near_sdf cfg of None \<Rightarrow> False | Some b \<Rightarrow> b)
       then \<not> (use_ts s \<and> rays_ts rt = None) \<and> \<not> (use_fidx s \<and> rays_fidx rt = None)
       else True))"

fun is_sampler_call :: "event \<Rightarrow> bool" where
  "is_sampler_call (SamplerCall m) = True"
| "is_sampler_call e = False"

fun is_compositor_call :: "event \<Rightarrow> bool" where
  "is_compositor_call RayAlphaToVw = True"
| "is_compositor_call PackedAlphaToVw = True"
| "is_compositor_call e = False"

text \<open>The errors the rendering block can raise: from the indexed assignments and from
  keys missing in the buffer.\<close>

fun render_error :: "error \<Rightarrow> bool" where
  "render_error IndexError = True"
| "render_error (RuntimeError m) = (m = ''shape mismatch'')"
| "render_error (KeyError k) = True"
| "render_error e = False"

text \<open>The query modes the dispatch names: those with a sampler, and those it declares
  and refuses.\<close>

definition implemented_query_modes :: "string list" where
  "implemented_query_modes =
     [''march_occ_multi_upsample'', ''march_occ_multi_upsample_compressed'',
      ''coarse_multi_upsample'', ''sphere_trace'']"

definition unimplemented_query_modes :: "string list" where
  "unimplemented_query_modes =
     [''march_occ_multi_upsample_compressed_strategy'', ''march_occ'']"

fun is_rescale :: "event \<Rightarrow> bool" where
  "is_rescale (SuperRescaleVolume b) = True"
| "is_rescale (AccelRescaleVolume b) = True"
| "is_rescale (SpaceRescaleVolume b) = True"
| "is_rescale e = False"

text \<open>Concrete objects for the worked instances.\<close>

definition st0 :: state where
  "st0 = \<lparr>training = True, accel = None, space_aabb = ((- 1, - 1, - 1), (1, 1, 1)),
          upsample_s_divisor = 1, it = None, shrink_milestones = [100],
          use_ts = False, use_fidx = False, lipshitz_bound_full = None,
          trace = [], store = []\<rparr>"

definition accel0 :: accel_struct where
  "accel0 = \<lparr>training_granularity = 2,
             try_shrink = ((- 1 / 2, - 1 / 2, - 1 / 2), (1 / 2, 1 / 2, 1 / 2)),
             debug_stats = None\<rparr>"

definition rays_4col :: ray_input where
  "rays_4col = \<lparr>rays_o = \<lparr>shape = [2, 4], elems = [0, 0, 0, 0, 0, 0, 0, 0]\<rparr>,
                rays_d = \<lparr>shape = [2, 4], elems = [0, 0, 1, 0, 0, 0, 1, 0]\<rparr>,
                near = None, far = None, extra_ray_data = []\<rparr>"

definition rt0 :: ray_tested where
  "rt0 = \<lparr>num_rays = 0, rays_inds = [], rt_rays_o = [], rt_rays_d = [], rt_near = [],
          rt_far = [], rays_ts = None, rays_fidx = None\<rparr>"

definition rt2 :: ray_tested where
  "rt2 = \<lparr>num_rays = 2, rays_inds = [0, 2], rt_rays_o = [(0, 0, 0), (0, 0, 0)],
          rt_rays_d = [(0, 0, 1), (0, 1, 0)], rt_near = [1, 1], rt_far = [5, 5],
          rays_ts = None, rays_fidx = None\<rparr>"

text \<open>Two hit rays (rays 0 and 2 of three) with two samples each, in both layouts.\<close>

definition bbuf0 :: batched_buffer where
  "bbuf0 = \<lparr>b_rays_inds_hit = [0, 2],
            b_t = [[1, 2], [3, 4]],
            b_opacity_alpha = [[1 / 2, 1 / 2], [1 / 4, 1]],
            b_rgb = Some [[(1, 0, 0), (0, 1, 0)], [(0, 0, 1), (1, 1, 1)]],
            b_nablas = Some [[(0, 0, 5), (0, 3, 0)], [(2, 0, 0), (0, 0, - 1)]],
            b_vw = None\<rparr>"

definition pbuf0 :: packed_buffer where
  "pbuf0 = \<lparr>p_rays_inds_hit = [0, 2],
            p_pack_infos_hit = [(0, 2), (2, 2)],
            p_t = [1, 2, 3, 4],
            p_opacity_alpha = [1 / 2, 1 / 2, 1 / 4, 1],
            p_rgb = Some [(1, 0, 0), (0, 1, 0), (0, 0, 1), (1, 1, 1)],
            p_nablas = Some [(0, 0, 5), (0, 3, 0), (2, 0, 0), (0, 0, - 1)],
            p_vw = None\<rparr>"

text \<open>
  Collaborators for the worked instances: the coarse sampler returns the batched
  buffer, the marching sampler the packed one, and sphere tracing hits nothing.
\<close>

definition c0 :: collaborators where
  "c0 = \<lparr>super_forward_sdf = (\<lambda>x kw. map (\<lambda>p. 0) x),
          super_forward_sdf_nablas = (\<lambda>x kw. (map (\<lambda>p. 0) x, map (\<lambda>p. (0, 0, 1)) x)),
          super_training_initialize = False,
          space_ray_test = (\<lambda>ri. rt0),
          self_forward_inv_s = 64,
          neus_ray_query_march_occ_multi_upsample =
            (\<lambda>rt rgb nrm dv pt inv. (PackedBuffer pbuf0, \<lparr>qd_entries = []\<rparr>)),
          neus_ray_query_march_occ_multi_upsample_compressed =
            (\<lambda>rt rgb nrm dv pt inv. (PackedBuffer pbuf0, \<lparr>qd_entries = []\<rparr>)),
          neus_ray_query_coarse_multi_upsample =
            (\<lambda>rt rgb nrm dv pt inv. (BatchedBuffer bbuf0, \<lparr>qd_entries = []\<rparr>)),
          neus_ray_query_sphere_trace =
            (\<lambda>rt rgb nrm dv pt inv. (EmptyBuffer, \<lparr>qd_entries = []\<rparr>))\<rparr>"

definition rays3 :: ray_input where
  "rays3 = \<lparr>rays_o = \<lparr>shape = [3, 3], elems = [0, 0, 0, 0, 0, 0, 0, 0, 0]\<rparr>,
            rays_d = \<lparr>shape = [3, 3], elems = [0, 0, 1, 1, 0, 0, 0, 1, 0]\<rparr>,
            near = None, far = None, extra_ray_data = []\<rparr>"

definition cfg0 :: config where
  "cfg0 = \<lparr>query_mode = ''coarse_multi_upsample'', with_rgb = True, with_normal = True,
           perturb = False, forward_inv_s = None, depth_use_normalized_vw = None,
           with_near_sdf = None\<rparr>"

definition cfg_sphere :: config where
  "cfg_sphere = cfg0\<lparr>query_mode := ''sphere_trace''\<rparr>"

definition cfg_unknown :: config where
  "cfg_unknown = cfg0\<lparr>query_mode := ''no_such_mode''\<rparr>"

definition cfg_march_occ :: config where
  "cfg_march_occ = cfg0\<lparr>query_mode := ''march_occ''\<rparr>"

section \<open>Shrink and the absent acceleration structure\<close>

text \<open>
  Claim C3. Every call of \<^verbatim>\<open>shrink\<close> rescales in one order: the network
  (\<^verbatim>\<open>super().rescale_volume\<close>) first, the acceleration structure second, the space
  last. The rescale calls a run of \<open>shrink\<close> adds to the trace are exactly these three,
  in this order, all with the bounds \<^verbatim>\<open>try_shrink\<close> returned; a run that raises
  before (no acceleration structure) rescales nothing, so the space is never rescaled
  ahead of the other two.
\<close>

theorem shrink_rescales_space_last:
  "filter is_rescale (new_events s (snd (shrink s))) =
     (case accel s of
        None \<Rightarrow> []
      | Some a \<Rightarrow> [SuperRescaleVolume (try_shrink a), AccelRescaleVolume (try_shrink a),
                   SpaceRescaleVolume (try_shrink a)])"
  by (simp add: shrink_def new_events_def emit_def Let_def split: option.splits)

theorem shrink_rescales_space_last_witness:
  "filter is_rescale (new_events (st0\<lparr>accel := Some accel0\<rparr>) (snd (shrink (st0\<lparr>accel := Some accel0\<rparr>)))) =
     [SuperRescaleVolume ((- 1 / 2, - 1 / 2, - 1 / 2), (1 / 2, 1 / 2, 1 / 2)),
      AccelRescaleVolume ((- 1 / 2, - 1 / 2, - 1 / 2), (1 / 2, 1 / 2, 1 / 2)),
      SpaceRescaleVolume ((- 1 / 2, - 1 / 2, - 1 / 2), (1 / 2, 1 / 2, 1 / 2))]"
  using shrink_rescales_space_last [of "st0\<lparr>accel := Some accel0\<rparr>"]
  by (simp add: st0_def accel0_def)

text \<open>
  Claim C8, as stated, fails: \<^verbatim>\<open>shrink\<close> itself does not check for an absent
  acceleration structure. Called on a renderer whose \<^verbatim>\<open>accel\<close> is \<^verbatim>\<open>None\<close> it
  raises at \<^verbatim>\<open>self.accel.try_shrink()\<close>.
\<close>

theorem shrink_without_accel_raises:
  "accel st0 = None \<and> fst (shrink st0) = Inl (AttributeError ''try_shrink'')"
  by (simp add: shrink_def st0_def)

text \<open>
  Claim C8, amended. With \<^verbatim>\<open>self.accel\<close> being \<^verbatim>\<open>None\<close>, the sample collection in
  \<^verbatim>\<open>forward_sdf\<close> and \<^verbatim>\<open>forward_sdf_nablas\<close>, the init in \<^verbatim>\<open>training_initialize\<close>,
  the step in \<^verbatim>\<open>training_before_per_step\<close> and the milestone shrink in
  \<^verbatim>\<open>training_after_per_step\<close> are skipped: each hook returns normally and calls only
  its superclass method.
\<close>

theorem accel_absent_hooks_skip:
  assumes "accel s = None"
  shows "forward_sdf c s x skip kw = (Inr (super_forward_sdf c x kw), emit (SuperForwardSdf x) s)
       \<and> forward_sdf_nablas c s x skip kw =
           (Inr (super_forward_sdf_nablas c x kw), emit (SuperForwardSdfNablas x) s)
       \<and> training_initialize c s skip =
           (Inr (super_training_initialize c), emit SuperTrainingInitialize s)
       \<and> training_before_per_step s cur_it skip =
           (Inr (), emit (SuperTrainingBeforePerStep cur_it) (s\<lparr>it := Some cur_it\<rparr>))
       \<and> training_after_per_step s cur_it skip =
           (Inr (), emit (SuperTrainingAfterPerStep cur_it) s)"
  using assms
  by (simp add: forward_sdf_def forward_sdf_nablas_def training_initialize_def
      training_before_per_step_def training_after_per_step_def emit_def Let_def)

theorem accel_absent_hooks_skip_witness:
  "accel st0 = None
   \<and> fst (forward_sdf c0 st0 [(0, 0, 0)] False []) = Inr (super_forward_sdf c0 [(0, 0, 0)] [])
   \<and> trace (snd (forward_sdf c0 st0 [(0, 0, 0)] False [])) = [SuperForwardSdf [(0, 0, 0)]]
   \<and> trace (snd (training_initialize c0 st0 False)) = [SuperTrainingInitialize]
   \<and> trace (snd (training_before_per_step st0 100 False)) = [SuperTrainingBeforePerStep 100]
   \<and> training_after_per_step st0 100 False = (Inr (), emit (SuperTrainingAfterPerStep 100) st0)
   \<and> 100 \<in> set (shrink_milestones st0)"
proof -
  have h: "accel st0 = None" by (simp add: st0_def)
  show ?thesis
    using accel_absent_hooks_skip [OF h, of c0 "[(0, 0, 0)]" False "[]" 100]
    by (simp add: st0_def emit_def)
qed

section \<open>Ray test\<close>

text \<open>
  Claim C9 at the input that breaks it: origins and directions of shape \<^verbatim>\<open>[2, 4]\<close>.
  The assertion of \<^verbatim>\<open>ray_test\<close> only compares \<^verbatim>\<open>dim()\<close> with 2, so the batch passes
  and is handed to \<^verbatim>\<open>self.space.ray_test\<close>.
\<close>

theorem ray_test_accepts_four_columns:
  "ray_test c s rays_4col = (Inr (space_ray_test c rays_4col), emit (SpaceRayTest rays_4col) s)"
  by (simp add: ray_test_def rays_4col_def)

section \<open>Sequencing and indexed assignment\<close>

lemma and_then_Inr [simp]: "and_then (Inr x, s) f = f x s"
  by (simp add: and_then_def)

lemma and_then_Inl [simp]: "and_then (Inl e, s) f = (Inl e, s)"
  by (simp add: and_then_def)

lemma and_then_eq_Inr:
  "and_then m f = (Inr y, s') \<longleftrightarrow> (\<exists>v s1. m = (Inr v, s1) \<and> f v s1 = (Inr y, s'))"
  by (cases m; cases "fst m") (auto simp: and_then_def)

lemma lift_simp [simp]: "lift x s = (x, s)"
  by (simp add: lift_def)

lemma fold_upd_length:
  "length (fold (\<lambda>(i, v) d. d[i := v]) ps d) = length d"
  by (induction ps arbitrary: d) auto

lemma fold_upd_frame:
  "i \<notin> fst ` set ps \<Longrightarrow> fold (\<lambda>(i, v) d. d[i := v]) ps d ! i = d ! i"
  by (induction ps arbitrary: d) auto

lemma fold_upd_hit:
  "distinct (map fst ps) \<Longrightarrow> (i, v) \<in> set ps \<Longrightarrow> i < length d
     \<Longrightarrow> fold (\<lambda>(i, v) d. d[i := v]) ps d ! i = v"
proof (induction ps arbitrary: d)
  case Nil
  then show ?case by simp
next
  case (Cons p ps)
  show ?case
  proof (cases "p = (i, v)")
    case True
    with Cons.prems have "i \<notin> fst ` set ps" by auto
    with True Cons.prems show ?thesis by (simp add: fold_upd_frame)
  next
    case False
    with Cons show ?thesis by (auto simp: case_prod_beta)
  qed
qed

lemma fold_fill_length:
  "length (fold (\<lambda>i d. d[i := v]) inds d) = length d"
  by (induction inds arbitrary: d) auto

lemma fold_fill_frame:
  "i \<notin> set inds \<Longrightarrow> fold (\<lambda>i d. d[i := v]) inds d ! i = d ! i"
  by (induction inds arbitrary: d) auto

lemma index_put_frame:
  assumes "index_put arr inds vals = Inr arr'"
  shows "nd_shape arr' = nd_shape arr"
    and "length (nd_data arr') = length (nd_data arr)"
    and "i \<notin> set inds \<Longrightarrow> nd_data arr' ! i = nd_data arr ! i"
proof -
  show "nd_shape arr' = nd_shape arr"
    using assms by (auto simp: index_put_def split: if_splits)
  show "length (nd_data arr') = length (nd_data arr)"
    using assms by (auto simp: index_put_def fold_upd_length fold_fill_length split: if_splits)
  show "nd_data arr' ! i = nd_data arr ! i" if "i \<notin> set inds"
  proof -
    have "i \<notin> fst ` set (zip inds vals)"
      using that by (auto dest: set_zip_leftD)
    with that assms show ?thesis
      by (auto simp: index_put_def fold_upd_frame fold_fill_frame split: if_splits)
  qed
qed

lemma index_put_hit:
  assumes "index_put arr inds vals = Inr arr'" "distinct inds" "length vals = length inds"
    "k < length inds"
  shows "nd_data arr' ! (inds ! k) = vals ! k"
proof -
  have in_range: "inds ! k < length (nd_data arr)"
    using assms by (auto simp: index_put_def list_all_length split: if_splits)
  have mem: "(inds ! k, vals ! k) \<in> set (zip inds vals)"
    using assms by (auto simp: in_set_zip)
  have "distinct (map fst (zip inds vals))"
    using assms by simp
  from fold_upd_hit [OF this mem in_range] assms show ?thesis
    by (auto simp: index_put_def split: if_splits)
qed

lemma index_put_error:
  "index_put arr inds vals = Inl e \<Longrightarrow> e = IndexError \<or> e = RuntimeError ''shape mismatch''"
  by (auto simp: index_put_def split: if_splits)

lemma index_put_ok:
  "length (nd_shape arr) = 1 \<Longrightarrow> list_all (\<lambda>i. i < length (nd_data arr)) inds
     \<Longrightarrow> length vals = length inds \<Longrightarrow> \<exists>arr'. index_put arr inds vals = Inr arr'"
  by (simp add: index_put_def)

section \<open>What a normal return of the rendering block says\<close>

lemma batched_rgb_Inr:
  assumes "batched_rgb cfg buf vw r s = (Inr r', s')"
  shows "s' = s" "depth_volume r' = depth_volume r" "mask_volume r' = mask_volume r"
    "normals_volume r' = normals_volume r"
    "\<not> with_rgb cfg \<Longrightarrow> rgb_volume r' = rgb_volume r"
    "with_rgb cfg \<Longrightarrow> \<exists>arr rgb arr'. rgb_volume r = Some arr \<and> b_rgb buf = Some rgb
        \<and> index_put arr (b_rays_inds_hit buf) (map2 weighted_vsum vw rgb) = Inr arr'
        \<and> rgb_volume r' = Some arr'"
  using assms
  by (auto simp: batched_rgb_def and_then_eq_Inr split: if_splits option.splits sum.splits)

lemma batched_normals_Inr:
  assumes "batched_normals cfg a buf vw r s = (Inr r', s')"
  shows "depth_volume r' = depth_volume r" "mask_volume r' = mask_volume r"
    "rgb_volume r' = rgb_volume r"
    "\<not> with_normal cfg \<Longrightarrow> normals_volume r' = normals_volume r \<and> s' = s"
    "with_normal cfg \<Longrightarrow> training s \<Longrightarrow> \<exists>arr nablas arr'. normals_volume r = Some arr
        \<and> b_nablas buf = Some nablas
        \<and> index_put arr (b_rays_inds_hit buf) (map2 weighted_vsum vw nablas) = Inr arr'
        \<and> normals_volume r' = Some arr' \<and> s' = s"
    "with_normal cfg \<Longrightarrow> \<not> training s \<Longrightarrow> \<exists>arr nablas arr'. normals_volume r = Some arr
        \<and> b_nablas buf = Some nablas
        \<and> index_put arr (b_rays_inds_hit buf)
             (map2 weighted_vsum vw (map (map normalize_vec) (map (map vclamp) nablas))) = Inr arr'
        \<and> normals_volume r' = Some arr'
        \<and> s' = put_buffer a (BatchedBuffer (buf\<lparr>b_nablas := Some (map (map vclamp) nablas)\<rparr>)) s"
  using assms
  by (auto simp: batched_normals_def Let_def and_then_eq_Inr split: if_splits option.splits sum.splits)

lemma training_put_buffer [simp]: "training (put_buffer a b s) = training s"
  by (simp add: put_buffer_def)

lemma training_emit [simp]: "training (emit e s) = training s"
  by (simp add: emit_def)

lemma render_batched_Inr:
  assumes "render_batched cfg a buf r s = (Inr r', s')"
  shows "index_put (mask_volume r) (b_rays_inds_hit buf)
           (map sum_list (ray_alpha_to_vw (b_opacity_alpha buf))) = Inr (mask_volume r')"
    and "index_put (depth_volume r) (b_rays_inds_hit buf)
           (batched_depth cfg (ray_alpha_to_vw (b_opacity_alpha buf)) (b_t buf)) = Inr (depth_volume r')"
    and "\<not> with_rgb cfg \<Longrightarrow> rgb_volume r' = rgb_volume r"
    and "with_rgb cfg \<Longrightarrow> \<exists>arr rgb arr'. rgb_volume r = Some arr \<and> b_rgb buf = Some rgb
        \<and> index_put arr (b_rays_inds_hit buf)
             (map2 weighted_vsum (ray_alpha_to_vw (b_opacity_alpha buf)) rgb) = Inr arr'
        \<and> rgb_volume r' = Some arr'"
    and "\<not> with_normal cfg \<Longrightarrow> normals_volume r' = normals_volume r"
    and "with_normal cfg \<Longrightarrow> training s \<Longrightarrow> \<exists>arr nablas arr'. normals_volume r = Some arr
        \<and> b_nablas buf = Some nablas
        \<and> index_put arr (b_rays_inds_hit buf)
             (map2 weighted_vsum (ray_alpha_to_vw (b_opacity_alpha buf)) nablas) = Inr arr'
        \<and> normals_volume r' = Some arr'"
    and "with_normal cfg \<Longrightarrow> \<not> training s \<Longrightarrow> \<exists>arr nablas arr'. normals_volume r = Some arr
        \<and> b_nablas buf = Some nablas
        \<and> index_put arr (b_rays_inds_hit buf)
             (map2 weighted_vsum (ray_alpha_to_vw (b_opacity_alpha buf))
                (map (map normalize_vec) (map (map vclamp) nablas))) = Inr arr'
        \<and> normals_volume r' = Some arr'"
proof -
  let ?vw = "ray_alpha_to_vw (b_opacity_alpha buf)"
  let ?buf1 = "buf\<lparr>b_vw := Some ?vw\<rparr>"
  let ?s1 = "put_buffer a (BatchedBuffer ?buf1) (emit RayAlphaToVw s)"
  from assms obtain m d r3 s4 where
    m: "index_put (mask_volume r) (b_rays_inds_hit buf) (map sum_list ?vw) = Inr m" and
    d: "index_put (depth_volume r) (b_rays_inds_hit buf) (batched_depth cfg ?vw (b_t buf)) = Inr d" and
    rgb: "batched_rgb cfg ?buf1 ?vw (r\<lparr>depth_volume := d, mask_volume := m\<rparr>) ?s1 = (Inr r3, s4)" and
    nrm: "batched_normals cfg a ?buf1 ?vw r3 s4 = (Inr r', s')"
    by (auto simp: render_batched_def Let_def and_then_eq_Inr)
  note R = batched_rgb_Inr [OF rgb]
  note N = batched_normals_Inr [OF nrm]
  have tr: "training s4 = training s" using R(1) by simp
  show "index_put (mask_volume r) (b_rays_inds_hit buf) (map sum_list ?vw) = Inr (mask_volume r')"
    using m R(3) N(2) by simp
  show "index_put (depth_volume r) (b_rays_inds_hit buf) (batched_depth cfg ?vw (b_t buf))
          = Inr (depth_volume r')"
    using d R(2) N(1) by simp
  show "rgb_volume r' = rgb_volume r" if "\<not> with_rgb cfg"
    using R(5) [OF that] N(3) by simp
  show "\<exists>arr rgb arr'. rgb_volume r = Some arr \<and> b_rgb buf = Some rgb
        \<and> index_put arr (b_rays_inds_hit buf) (map2 weighted_vsum ?vw rgb) = Inr arr'
        \<and> rgb_volume r' = Some arr'" if "with_rgb cfg"
    using R(6) [OF that] N(3) by simp
  show "normals_volume r' = normals_volume r" if "\<not> with_normal cfg"
    using N(4) [OF that] R(4) by simp
  show "\<exists>arr nablas arr'. normals_volume r = Some arr \<and> b_nablas buf = Some nablas
        \<and> index_put arr (b_rays_inds_hit buf) (map2 weighted_vsum ?vw nablas) = Inr arr'
        \<and> normals_volume r' = Some arr'" if "with_normal cfg" "training s"
    using N(5) [OF that(1)] that(2) tr R(4) by auto
  show "\<exists>arr nablas arr'. normals_volume r = Some arr \<and> b_nablas buf = Some nablas
        \<and> index_put arr (b_rays_inds_hit buf)
             (map2 weighted_vsum ?vw (map (map normalize_vec) (map (map vclamp) nablas))) = Inr arr'
        \<and> normals_volume r' = Some arr'" if "with_normal cfg" "\<not> training s"
    using N(6) [OF that(1)] that(2) tr R(4) by auto
qed

lemma packed_rgb_Inr:
  assumes "packed_rgb cfg buf vw r s = (Inr r', s')"
  shows "s' = s" "depth_volume r' = depth_volume r" "mask_volume r' = mask_volume r"
    "normals_volume r' = normals_volume r"
    "\<not> with_rgb cfg \<Longrightarrow> rgb_volume r' = rgb_volume r"
    "with_rgb cfg \<Longrightarrow> \<exists>arr rgb arr'. rgb_volume r = Some arr \<and> p_rgb buf = Some rgb
        \<and> index_put arr (p_rays_inds_hit buf)
             (packed_sum3 (map2 vscale vw rgb) (p_pack_infos_hit buf)) = Inr arr'
        \<and> rgb_volume r' = Some arr'"
  using assms
  by (auto simp: packed_rgb_def and_then_eq_Inr split: if_splits option.splits sum.splits)

lemma packed_normals_Inr:
  assumes "packed_normals cfg a buf vw r s = (Inr r', s')"
  shows "depth_volume r' = depth_volume r" "mask_volume r' = mask_volume r"
    "rgb_volume r' = rgb_volume r"
    "\<not> with_normal cfg \<Longrightarrow> normals_volume r' = normals_volume r \<and> s' = s"
    "with_normal cfg \<Longrightarrow> training s \<Longrightarrow> \<exists>arr nablas arr'. normals_volume r = Some arr
        \<and> p_nablas buf = Some nablas
        \<and> index_put arr (p_rays_inds_hit buf)
             (packed_sum3 (map2 vscale vw nablas) (p_pack_infos_hit buf)) = Inr arr'
        \<and> normals_volume r' = Some arr' \<and> s' = s"
    "with_normal cfg \<Longrightarrow> \<not> training s \<Longrightarrow> \<exists>arr nablas arr'. normals_volume r = Some arr
        \<and> p_nablas buf = Some nablas
        \<and> index_put arr (p_rays_inds_hit buf)
             (packed_sum3 (map2 vscale vw (map normalize_vec (map vclamp nablas)))
                (p_pack_infos_hit buf)) = Inr arr'
        \<and> normals_volume r' = Some arr'
        \<and> s' = put_buffer a (PackedBuffer (buf\<lparr>p_nablas := Some (map vclamp nablas)\<rparr>)) s"
  using assms
  by (auto simp: packed_normals_def Let_def and_then_eq_Inr split: if_splits option.splits sum.splits)

lemma render_packed_Inr:
  assumes "render_packed cfg a buf r s = (Inr r', s')"
  shows "index_put (mask_volume r) (p_rays_inds_hit buf)
           (packed_sum (packed_alpha_to_vw (p_opacity_alpha buf) (p_pack_infos_hit buf))
              (p_pack_infos_hit buf)) = Inr (mask_volume r')"
    and "index_put (depth_volume r) (p_rays_inds_hit buf)
           (packed_depth cfg (packed_alpha_to_vw (p_opacity_alpha buf) (p_pack_infos_hit buf))
              (packed_sum (packed_alpha_to_vw (p_opacity_alpha buf) (p_pack_infos_hit buf))
                 (p_pack_infos_hit buf))
              (p_t buf) (p_pack_infos_hit buf)) = Inr (depth_volume r')"
    and "\<not> with_rgb cfg \<Longrightarrow> rgb_volume r' = rgb_volume r"
    and "with_rgb cfg \<Longrightarrow> \<exists>arr rgb arr'. rgb_volume r = Some arr \<and> p_rgb buf = Some rgb
        \<and> index_put arr (p_rays_inds_hit buf)
             (packed_sum3 (map2 vscale (packed_alpha_to_vw (p_opacity_alpha buf) (p_pack_infos_hit buf)) rgb)
                (p_pack_infos_hit buf)) = Inr arr'
        \<and> rgb_volume r' = Some arr'"
    and "\<not> with_normal cfg \<Longrightarrow> normals_volume r' = normals_volume r"
    and "with_normal cfg \<Longrightarrow> training s \<Longrightarrow> \<exists>arr nablas arr'. normals_volume r = Some arr
        \<and> p_nablas buf = Some nablas
        \<and> index_put arr (p_rays_inds_hit buf)
             (packed_sum3 (map2 vscale (packed_alpha_to_vw (p_opacity_alpha buf) (p_pack_infos_hit buf)) nablas)
                (p_pack_infos_hit buf)) = Inr arr'
        \<and> normals_volume r' = Some arr'"
    and "with_normal cfg \<Longrightarrow> \<not> training s \<Longrightarrow> \<exists>arr nablas arr'. normals_volume r = Some arr
        \<and> p_nablas buf = Some nablas
        \<and> index_put arr (p_rays_inds_hit buf)
             (packed_sum3 (map2 vscale (packed_alpha_to_vw (p_opacity_alpha buf) (p_pack_infos_hit buf))
                (map normalize_vec (map vclamp nablas))) (p_pack_infos_hit buf)) = Inr arr'
        \<and> normals_volume r' = Some arr'"
proof -
  let ?pi = "p_pack_infos_hit buf"
  let ?vw = "packed_alpha_to_vw (p_opacity_alpha buf) ?pi"
  let ?buf1 = "buf\<lparr>p_vw := Some ?vw\<rparr>"
  let ?s1 = "put_buffer a (PackedBuffer ?buf1) (emit PackedAlphaToVw s)"
  from assms obtain m d r3 s4 where
    m: "index_put (mask_volume r) (p_rays_inds_hit buf) (packed_sum ?vw ?pi) = Inr m" and
    d: "index_put (depth_volume r) (p_rays_inds_hit buf)
          (packed_depth cfg ?vw (packed_sum ?vw ?pi) (p_t buf) ?pi) = Inr d" and
    rgb: "packed_rgb cfg ?buf1 ?vw (r\<lparr>depth_volume := d, mask_volume := m\<rparr>) ?s1 = (Inr r3, s4)" and
    nrm: "packed_normals cfg a ?buf1 ?vw r3 s4 = (Inr r', s')"
    by (auto simp: render_packed_def Let_def and_then_eq_Inr)
  note R = packed_rgb_Inr [OF rgb]
  note N = packed_normals_Inr [OF nrm]
  have tr: "training s4 = training s" using R(1) by simp
  show "index_put (mask_volume r) (p_rays_inds_hit buf) (packed_sum ?vw ?pi) = Inr (mask_volume r')"
    using m R(3) N(2) by simp
  show "index_put (depth_volume r) (p_rays_inds_hit buf)
          (packed_depth cfg ?vw (packed_sum ?vw ?pi) (p_t buf) ?pi) = Inr (depth_volume r')"
    using d R(2) N(1) by simp
  show "rgb_volume r' = rgb_volume r" if "\<not> with_rgb cfg"
    using R(5) [OF that] N(3) by simp
  show "\<exists>arr rgb arr'. rgb_volume r = Some arr \<and> p_rgb buf = Some rgb
        \<and> index_put arr (p_rays_inds_hit buf) (packed_sum3 (map2 vscale ?vw rgb) ?pi) = Inr arr'
        \<and> rgb_volume r' = Some arr'" if "with_rgb cfg"
    using R(6) [OF that] N(3) by simp
  show "normals_volume r' = normals_volume r" if "\<not> with_normal cfg"
    using N(4) [OF that] R(4) by simp
  show "\<exists>arr nablas arr'. normals_volume r = Some arr \<and> p_nablas buf = Some nablas
        \<and> index_put arr (p_rays_inds_hit buf) (packed_sum3 (map2 vscale ?vw nablas) ?pi) = Inr arr'
        \<and> normals_volume r' = Some arr'" if "with_normal cfg" "training s"
    using N(5) [OF that(1)] that(2) tr R(4) by auto
  show "\<exists>arr nablas arr'. normals_volume r = Some arr \<and> p_nablas buf = Some nablas
        \<and> index_put arr (p_rays_inds_hit buf)
             (packed_sum3 (map2 vscale ?vw (map normalize_vec (map vclamp nablas))) ?pi) = Inr arr'
        \<and> normals_volume r' = Some arr'" if "with_normal cfg" "\<not> training s"
    using N(6) [OF that(1)] that(2) tr R(4) by auto
qed

section \<open>The sections of a ray query\<close>

lemma resolve_inputs_Inr:
  assumes "resolve_inputs c ri_opt rt_opt s = (Inr rt, s0)"
  shows "store s0 = store s" "training s0 = training s"
    "upsample_s_divisor s0 = upsample_s_divisor s" "accel s0 = accel s"
    "use_ts s0 = use_ts s" "use_fidx s0 = use_fidx s"
    "\<exists>es. trace s0 = trace s @ es \<and> filter is_sampler_call es = [] \<and> filter is_compositor_call es = []"
  using assms
  by (auto simp: resolve_inputs_def ray_test_def emit_def split: option.splits if_splits sum.splits)

lemma dispatch_query_fst:
  "upsample_s_divisor s1 = upsample_s_divisor s
     \<Longrightarrow> fst (dispatch_query c cfg rt i s1) = fst (dispatch_query c cfg rt i s)"
  by (simp add: dispatch_query_def Let_def)

lemma dispatch_query_Inr:
  assumes "dispatch_query c cfg rt i s = (Inr x, s')"
  shows "s' = emit (SamplerCall (query_mode cfg)) s"
  using assms by (auto simp: dispatch_query_def Let_def split: if_splits)

lemma dispatch_query_Inl:
  assumes "dispatch_query c cfg rt i s = (Inl e, s')"
  shows "s' = s"
  using assms by (auto simp: dispatch_query_def Let_def split: if_splits)

lemma prepare_details_Inr:
  assumes "prepare_details rd i s = (Inr d, s')"
  shows "store s' = store s" "training s' = training s"
    "upsample_s_divisor s' = upsample_s_divisor s" "use_ts s' = use_ts s" "use_fidx s' = use_fidx s"
    "accel s' = accel s"
    "\<exists>es. trace s' = trace s @ es \<and> filter is_sampler_call es = [] \<and> filter is_compositor_call es = []"
    "(d = None) = (\<not> rd)"
  using assms
  by (auto simp: prepare_details_def emit_def Let_def split: option.splits if_splits prod.splits)

lemma calc_details_Inr:
  assumes "calc_details c cfg rt qd dopt s = (Inr d, s')"
  shows "store s' = store s" "training s' = training s"
    "\<exists>es. trace s' = trace s @ es \<and> filter is_sampler_call es = [] \<and> filter is_compositor_call es = []"
  using assms
  by (auto simp: calc_details_def forward_sdf_def emit_def Let_def and_then_eq_Inr
      split: option.splits if_splits prod.splits)

lemma prepare_buffer_eq:
  "prepare_buffer rb s = (Inr (if rb then Some (length (store s)) else None),
      s\<lparr>store := store s @ (if rb then [EmptyBuffer] else [])\<rparr>)"
  by (simp add: prepare_buffer_def)

lemma prepare_rendered_Inr:
  assumes "prepare_rendered rp cfg ri_opt s = (Inr ropt, s')"
  shows "s' = s" "\<not> rp \<Longrightarrow> ropt = None"
    "rp \<Longrightarrow> \<exists>ri. ri_opt = Some ri \<and> ropt = Some (zero_rendered cfg ri)"
  using assms by (auto simp: prepare_rendered_def split: if_splits option.splits)

lemma ray_query_Inr_hit:
  assumes rq: "ray_query c s ri_opt rt_opt cfg rb rd rp = (Inr raw, s')"
    and res: "resolve_inputs c ri_opt rt_opt s = (Inr rt, s0)"
    and nz: "num_rays rt \<noteq> 0"
  obtains vb qd s6 where
    "sampler_result c cfg rt s = Inr (vb, qd)"
    "store s6 = store s0 @ (if rb then [EmptyBuffer] else []) @ [vb]"
    "training s6 = training s"
    "rr_volume_buffer raw = (if rb then Some (length (store s6) - 1) else None)"
    "\<not> rp \<Longrightarrow> s' = s6 \<and> rr_rendered raw = None"
    "rp \<Longrightarrow> \<exists>ri r1. ri_opt = Some ri
        \<and> render_per_obj cfg (length (store s6) - 1) vb (zero_rendered cfg ri) s6 = (Inr r1, s')
        \<and> rr_rendered raw = Some r1"
proof -
  let ?i = "get_forward_inv_s c cfg"
  let ?s1 = "s0\<lparr>store := store s0 @ (if rb then [EmptyBuffer] else [])\<rparr>"
  let ?vref = "if rb then Some (length (store s0)) else None"
  from rq res nz obtain dopt s2 ropt s3 vb qd s4 dopt1 s6 where
    pd: "prepare_details rd ?i ?s1 = (Inr dopt, s2)" and
    pr: "prepare_rendered rp cfg ri_opt s2 = (Inr ropt, s3)" and
    dq: "dispatch_query c cfg rt ?i s3 = (Inr (vb, qd), s4)" and
    cd: "calc_details c cfg rt qd dopt (s4\<lparr>store := store s4 @ [vb]\<rparr>) = (Inr dopt1, s6)" and
    fin: "(case ropt of
            None \<Rightarrow> (Inr ((if rb then \<lparr>rr_volume_buffer = ?vref, rr_details = dopt, rr_rendered = ropt\<rparr>
                              \<lparr>rr_volume_buffer := Some (length (store s4))\<rparr>
                           else \<lparr>rr_volume_buffer = ?vref, rr_details = dopt, rr_rendered = ropt\<rparr>)
                          \<lparr>rr_details := dopt1\<rparr>), s6)
          | Some r \<Rightarrow>
              and_then (render_per_obj cfg (length (store s4)) vb r s6)
                (\<lambda>r1 s7. (Inr (((if rb then \<lparr>rr_volume_buffer = ?vref, rr_details = dopt, rr_rendered = ropt\<rparr>
                              \<lparr>rr_volume_buffer := Some (length (store s4))\<rparr>
                           else \<lparr>rr_volume_buffer = ?vref, rr_details = dopt, rr_rendered = ropt\<rparr>)
                          \<lparr>rr_details := dopt1\<rparr>)\<lparr>rr_rendered := Some r1\<rparr>), s7))) = (Inr raw, s')"
    by (auto simp: ray_query_def prepare_buffer_eq Let_def and_then_eq_Inr split: prod.splits)
  note PD = prepare_details_Inr [OF pd]
  note PR = prepare_rendered_Inr [OF pr]
  note RI = resolve_inputs_Inr [OF res]
  have s4: "s4 = emit (SamplerCall (query_mode cfg)) s3"
    using dispatch_query_Inr [OF dq] .
  note CD = calc_details_Inr [OF cd]
  have up: "upsample_s_divisor s3 = upsample_s_divisor s"
    using PR(1) PD(3) RI(3) by simp
  have sr: "sampler_result c cfg rt s = Inr (vb, qd)"
    using dispatch_query_fst [OF up, of c cfg rt ?i] dq by (simp add: sampler_result_def)
  have st4: "store s4 = store s0 @ (if rb then [EmptyBuffer] else [])"
    using s4 PR(1) PD(1) by (simp add: emit_def)
  have st6: "store s6 = store s0 @ (if rb then [EmptyBuffer] else []) @ [vb]"
    using CD(1) st4 by simp
  have a: "length (store s6) - 1 = length (store s4)"
    using st6 st4 by simp
  have tr: "training s6 = training s"
    using CD(2) s4 PR(1) PD(2) RI(2) by (simp add: emit_def)
  have vbr: "rr_volume_buffer raw = (if rb then Some (length (store s6) - 1) else None)"
    using fin a by (auto simp: and_then_eq_Inr split: option.splits if_splits)
  have nrp: "s' = s6 \<and> rr_rendered raw = None" if "\<not> rp"
    using fin PR(2) [OF that] by (auto split: if_splits)
  have yrp: "\<exists>ri r1. ri_opt = Some ri
        \<and> render_per_obj cfg (length (store s6) - 1) vb (zero_rendered cfg ri) s6 = (Inr r1, s')
        \<and> rr_rendered raw = Some r1" if "rp"
    using fin PR(3) [OF that] a by (auto simp: and_then_eq_Inr split: if_splits)
  from that [OF sr st6 tr vbr nrp yrp] show thesis .
qed

lemma prepare_details_ok:
  assumes "rd \<longrightarrow> i \<noteq> 0"
  shows "\<exists>d s2. prepare_details rd i s = (Inr d, s2)"
  using assms
  by (auto simp: prepare_details_def Let_def split: option.splits prod.splits)

lemma calc_details_ok:
  assumes "dopt \<noteq> None \<longrightarrow> details_available c cfg rt s"
  shows "\<exists>d1 s6. calc_details c cfg rt qd dopt s = (Inr d1, s6) \<and> (d1 = None) = (dopt = None)"
  using assms
  by (auto simp: calc_details_def details_available_def forward_sdf_def Let_def
      split: option.splits if_splits)

lemma details_available_cong:
  "use_ts s' = use_ts s \<Longrightarrow> use_fidx s' = use_fidx s
     \<Longrightarrow> details_available c cfg rt s' = details_available c cfg rt s"
  by (simp add: details_available_def)

lemma filter_append_nil:
  "filter P xs = [] \<Longrightarrow> filter P ys = zs \<Longrightarrow> filter P (xs @ ys) = zs"
  by simp

lemma ray_query_zero:
  assumes res: "resolve_inputs c ri_opt rt_opt s = (Inr rt, s0)"
    and z: "num_rays rt = 0"
    and dok: "rd \<longrightarrow> get_forward_inv_s c cfg \<noteq> 0"
    and rok: "rp \<longrightarrow> ri_opt = Some ri"
  shows "\<exists>d s3. ray_query c s ri_opt rt_opt cfg rb rd rp =
            (Inr \<lparr>rr_volume_buffer = (if rb then Some (length (store s)) else None),
                  rr_details = d,
                  rr_rendered = (if rp then Some (zero_rendered cfg ri) else None)\<rparr>, s3)
          \<and> store s3 = store s @ (if rb then [EmptyBuffer] else [])
          \<and> (d = None) = (\<not> rd)
          \<and> (\<exists>es. trace s3 = trace s @ es \<and> filter is_sampler_call es = []
                \<and> filter is_compositor_call es = [])"
proof -
  let ?i = "get_forward_inv_s c cfg"
  let ?s1 = "s0\<lparr>store := store s0 @ (if rb then [EmptyBuffer] else [])\<rparr>"
  note RI = resolve_inputs_Inr [OF res]
  from prepare_details_ok [OF dok] obtain d s2 where
    pd: "prepare_details rd ?i ?s1 = (Inr d, s2)" by blast
  note PD = prepare_details_Inr [OF pd]
  have pr: "prepare_rendered rp cfg ri_opt s2 =
      (Inr (if rp then Some (zero_rendered cfg ri) else None), s2)"
    using rok by (auto simp: prepare_rendered_def)
  have rq: "ray_query c s ri_opt rt_opt cfg rb rd rp =
            (Inr \<lparr>rr_volume_buffer = (if rb then Some (length (store s)) else None),
                  rr_details = d,
                  rr_rendered = (if rp then Some (zero_rendered cfg ri) else None)\<rparr>, s2)"
    using res z pd pr RI(1) by (simp add: ray_query_def prepare_buffer_eq Let_def)
  from RI(7) obtain es0 where es0: "trace s0 = trace s @ es0" "filter is_sampler_call es0 = []"
    "filter is_compositor_call es0 = []" by blast
  from PD(7) obtain es1 where es1: "trace s2 = trace ?s1 @ es1" "filter is_sampler_call es1 = []"
    "filter is_compositor_call es1 = []" by blast
  have tr: "trace s2 = trace s @ (es0 @ es1)" using es0 es1 by simp
  have "filter is_sampler_call (es0 @ es1) = []" "filter is_compositor_call (es0 @ es1) = []"
    using es0 es1 by simp_all
  with tr have "\<exists>es. trace s2 = trace s @ es \<and> filter is_sampler_call es = []
                \<and> filter is_compositor_call es = []" by blast
  moreover have "store s2 = store s @ (if rb then [EmptyBuffer] else [])"
    using PD(1) RI(1) by simp
  ultimately show ?thesis using rq PD(8) by blast
qed

lemma ray_query_hit:
  assumes res: "resolve_inputs c ri_opt rt_opt s = (Inr rt, s0)"
    and nz: "num_rays rt \<noteq> 0"
    and sr: "sampler_result c cfg rt s = Inr (vb, qd)"
    and dok: "rd \<longrightarrow> details_available c cfg rt s"
    and rok: "rp \<longrightarrow> ri_opt = Some ri"
  shows "\<exists>d s6. ray_query c s ri_opt rt_opt cfg rb rd rp =
            (if rp then
               and_then (render_per_obj cfg (length (store s6) - 1) vb (zero_rendered cfg ri) s6)
                 (\<lambda>r1 s7. (Inr \<lparr>rr_volume_buffer = (if rb then Some (length (store s6) - 1) else None),
                                 rr_details = d, rr_rendered = Some r1\<rparr>, s7))
             else (Inr \<lparr>rr_volume_buffer = (if rb then Some (length (store s6) - 1) else None),
                        rr_details = d, rr_rendered = None\<rparr>, s6))
          \<and> store s6 = store s @ (if rb then [EmptyBuffer] else []) @ [vb]
          \<and> training s6 = training s
          \<and> (d = None) = (\<not> rd)
          \<and> (\<exists>es. trace s6 = trace s @ es
                \<and> filter is_sampler_call es = [SamplerCall (query_mode cfg)]
                \<and> filter is_compositor_call es = [])"
proof -
  let ?i = "get_forward_inv_s c cfg"
  let ?s1 = "s0\<lparr>store := store s0 @ (if rb then [EmptyBuffer] else [])\<rparr>"
  note RI = resolve_inputs_Inr [OF res]
  have "rd \<longrightarrow> ?i \<noteq> 0" using dok by (simp add: details_available_def)
  from prepare_details_ok [OF this] obtain d s2 where
    pd: "prepare_details rd ?i ?s1 = (Inr d, s2)" by blast
  note PD = prepare_details_Inr [OF pd]
  have pr: "prepare_rendered rp cfg ri_opt s2 =
      (Inr (if rp then Some (zero_rendered cfg ri) else None), s2)"
    using rok by (auto simp: prepare_rendered_def)
  have up: "upsample_s_divisor s2 = upsample_s_divisor s"
    using PD(3) RI(3) by simp
  have "fst (dispatch_query c cfg rt ?i s2) = Inr (vb, qd)"
    using dispatch_query_fst [OF up, of c cfg rt ?i] sr by (simp add: sampler_result_def)
  then obtain s4 where dq0: "dispatch_query c cfg rt ?i s2 = (Inr (vb, qd), s4)"
    by (cases "dispatch_query c cfg rt ?i s2") auto
  from dispatch_query_Inr [OF dq0] have s4: "s4 = emit (SamplerCall (query_mode cfg)) s2" .
  have dq: "dispatch_query c cfg rt ?i s2 = (Inr (vb, qd), emit (SamplerCall (query_mode cfg)) s2)"
    using dq0 s4 by simp
  let ?s5 = "(emit (SamplerCall (query_mode cfg)) s2)\<lparr>store := store s2 @ [vb]\<rparr>"
  have da: "d \<noteq> None \<longrightarrow> details_available c cfg rt ?s5"
  proof -
    have "use_ts ?s5 = use_ts s" "use_fidx ?s5 = use_fidx s"
      using PD(4,5) RI(5,6) by (simp_all add: emit_def)
    from details_available_cong [OF this] dok PD(8) show ?thesis by auto
  qed
  from calc_details_ok [OF da] obtain d1 s6 where
    cd: "calc_details c cfg rt qd d ?s5 = (Inr d1, s6)" and d1: "(d1 = None) = (d = None)"
    by blast
  note CD = calc_details_Inr [OF cd]
  have st2: "store s2 = store s @ (if rb then [EmptyBuffer] else [])"
    using PD(1) RI(1) by simp
  have st6: "store s6 = store s @ (if rb then [EmptyBuffer] else []) @ [vb]"
    using CD(1) st2 by (simp add: emit_def)
  have a: "length (store s6) - 1 = length (store s2)"
    using st6 st2 by simp
  have tr6: "training s6 = training s"
    using CD(2) PD(2) RI(2) by (simp add: emit_def)
  have rq: "ray_query c s ri_opt rt_opt cfg rb rd rp =
            (if rp then
               and_then (render_per_obj cfg (length (store s6) - 1) vb (zero_rendered cfg ri) s6)
                 (\<lambda>r1 s7. (Inr \<lparr>rr_volume_buffer = (if rb then Some (length (store s6) - 1) else None),
                                 rr_details = d1, rr_rendered = Some r1\<rparr>, s7))
             else (Inr \<lparr>rr_volume_buffer = (if rb then Some (length (store s6) - 1) else None),
                        rr_details = d1, rr_rendered = None\<rparr>, s6))"
    using res nz pd pr dq cd a
    by (simp add: ray_query_def prepare_buffer_eq Let_def emit_def)
  from RI(7) obtain es0 where es0: "trace s0 = trace s @ es0" "filter is_sampler_call es0 = []"
    "filter is_compositor_call es0 = []" by blast
  from PD(7) obtain es1 where es1: "trace s2 = trace ?s1 @ es1" "filter is_sampler_call es1 = []"
    "filter is_compositor_call es1 = []" by blast
  from CD(3) obtain es2 where es2: "trace s6 = trace ?s5 @ es2" "filter is_sampler_call es2 = []"
    "filter is_compositor_call es2 = []" by blast
  let ?es = "es0 @ es1 @ [SamplerCall (query_mode cfg)] @ es2"
  have tr: "trace s6 = trace s @ ?es" using es0 es1 es2 by (simp add: emit_def)
  have "filter is_sampler_call ?es = [SamplerCall (query_mode cfg)]"
    "filter is_compositor_call ?es = []"
    using es0 es1 es2 by simp_all
  with tr have "\<exists>es. trace s6 = trace s @ es
                \<and> filter is_sampler_call es = [SamplerCall (query_mode cfg)]
                \<and> filter is_compositor_call es = []" by blast
  with rq st6 tr6 d1 PD(8) show ?thesis by blast
qed

section \<open>Errors and collaborator calls of the rendering block\<close>

lemma render_error_iff:
  "render_error e = (e = IndexError \<or> e = RuntimeError ''shape mismatch'' \<or> (\<exists>k. e = KeyError k))"
  by (cases e) auto

lemma and_then_cases:
  assumes "and_then m f = (x, s')"
  obtains (err) e where "m = (Inl e, s')" "x = Inl e"
  | (ok) v s1 where "m = (Inr v, s1)" "f v s1 = (x, s')"
  using assms by (cases m; cases "fst m") (auto simp: and_then_def)

lemma calc_details_any:
  assumes "calc_details c cfg rt qd dopt s = (x, s')"
  shows "\<exists>es. trace s' = trace s @ es \<and> filter is_sampler_call es = []"
    and "x = Inl e \<Longrightarrow> \<exists>k. e = KeyError k"
  using assms
  by (auto simp: calc_details_def forward_sdf_def emit_def Let_def and_then_def
      split: option.splits if_splits prod.splits)

lemma index_put_render_error:
  "index_put arr inds vals = Inl e \<Longrightarrow> render_error e"
  by (auto simp: render_error_iff dest: index_put_error)

lemma batched_rgb_any:
  assumes "batched_rgb cfg buf vw r s = (x, s')"
  shows "s' = s" "x = Inl e \<Longrightarrow> render_error e"
  using assms
  by (auto simp: batched_rgb_def and_then_def render_error_iff dest: index_put_error
      split: if_splits option.splits sum.splits)

lemma batched_normals_any:
  assumes "batched_normals cfg a buf vw r s = (x, s')"
  shows "trace s' = trace s" "x = Inl e \<Longrightarrow> render_error e"
  using assms
  by (auto simp: batched_normals_def and_then_def render_error_iff put_buffer_def Let_def
      dest: index_put_error split: if_splits option.splits sum.splits)

lemma packed_rgb_any:
  assumes "packed_rgb cfg buf vw r s = (x, s')"
  shows "s' = s" "x = Inl e \<Longrightarrow> render_error e"
  using assms
  by (auto simp: packed_rgb_def and_then_def render_error_iff dest: index_put_error
      split: if_splits option.splits sum.splits)

lemma packed_normals_any:
  assumes "packed_normals cfg a buf vw r s = (x, s')"
  shows "trace s' = trace s" "x = Inl e \<Longrightarrow> render_error e"
  using assms
  by (auto simp: packed_normals_def and_then_def render_error_iff put_buffer_def Let_def
      dest: index_put_error split: if_splits option.splits sum.splits)

lemma render_batched_any:
  assumes "render_batched cfg a buf r s = (x, s')"
  shows "trace s' = trace s @ [RayAlphaToVw]" "x = Inl e \<Longrightarrow> render_error e"
proof -
  let ?vw = "ray_alpha_to_vw (b_opacity_alpha buf)"
  let ?buf1 = "buf\<lparr>b_vw := Some ?vw\<rparr>"
  let ?s1 = "put_buffer a (BatchedBuffer ?buf1) (emit RayAlphaToVw s)"
  have t1: "trace ?s1 = trace s @ [RayAlphaToVw]" by (simp add: put_buffer_def emit_def)
  from assms have A: "and_then (index_put (mask_volume r) (b_rays_inds_hit buf) (map sum_list ?vw), ?s1)
     (\<lambda>m s2. and_then (index_put (depth_volume r) (b_rays_inds_hit buf)
                 (batched_depth cfg ?vw (b_t buf)), s2)
        (\<lambda>d s3. and_then (batched_rgb cfg ?buf1 ?vw (r\<lparr>depth_volume := d, mask_volume := m\<rparr>) s3)
           (\<lambda>r3 s4. batched_normals cfg a ?buf1 ?vw r3 s4))) = (x, s')"
    by (simp add: render_batched_def Let_def)
  have "trace s' = trace s @ [RayAlphaToVw] \<and> (x = Inl e \<longrightarrow> render_error e)"
  proof (cases rule: and_then_cases [OF A])
    case (1 e')
    then show ?thesis using t1 by (auto dest: index_put_render_error)
  next
    case (2 m s1)
    from 2(1) have s1: "s1 = ?s1" by simp
    show ?thesis
    proof (cases rule: and_then_cases [OF 2(2)])
      case (1 e')
      then show ?thesis using t1 s1 by (auto dest: index_put_render_error)
    next
      case (2 d s3)
      from 2(1) s1 have s3: "s3 = ?s1" by simp
      show ?thesis
      proof (cases rule: and_then_cases [OF 2(2)])
        case (1 e')
        from batched_rgb_any [OF 1(1)] 1(2) t1 s3 show ?thesis by auto
      next
        case (2 r3 s4)
        from batched_rgb_any(1) [OF 2(1)] have "s4 = s3" .
        with batched_normals_any [OF 2(2)] t1 s3 show ?thesis by auto
      qed
    qed
  qed
  then show "trace s' = trace s @ [RayAlphaToVw]" "x = Inl e \<Longrightarrow> render_error e" by auto
qed

lemma render_packed_any:
  assumes "render_packed cfg a buf r s = (x, s')"
  shows "trace s' = trace s @ [PackedAlphaToVw]" "x = Inl e \<Longrightarrow> render_error e"
proof -
  let ?pi = "p_pack_infos_hit buf"
  let ?vw = "packed_alpha_to_vw (p_opacity_alpha buf) ?pi"
  let ?buf1 = "buf\<lparr>p_vw := Some ?vw\<rparr>"
  let ?s1 = "put_buffer a (PackedBuffer ?buf1) (emit PackedAlphaToVw s)"
  have t1: "trace ?s1 = trace s @ [PackedAlphaToVw]" by (simp add: put_buffer_def emit_def)
  from assms have A: "and_then (index_put (mask_volume r) (p_rays_inds_hit buf) (packed_sum ?vw ?pi), ?s1)
     (\<lambda>m s2. and_then (index_put (depth_volume r) (p_rays_inds_hit buf)
                 (packed_depth cfg ?vw (packed_sum ?vw ?pi) (p_t buf) ?pi), s2)
        (\<lambda>d s3. and_then (packed_rgb cfg ?buf1 ?vw (r\<lparr>depth_volume := d, mask_volume := m\<rparr>) s3)
           (\<lambda>r3 s4. packed_normals cfg a ?buf1 ?vw r3 s4))) = (x, s')"
    by (simp add: render_packed_def Let_def)
  have "trace s' = trace s @ [PackedAlphaToVw] \<and> (x = Inl e \<longrightarrow> render_error e)"
  proof (cases rule: and_then_cases [OF A])
    case (1 e')
    then show ?thesis using t1 by (auto dest: index_put_render_error)
  next
    case (2 m s1)
    from 2(1) have s1: "s1 = ?s1" by simp
    show ?thesis
    proof (cases rule: and_then_cases [OF 2(2)])
      case (1 e')
      then show ?thesis using t1 s1 by (auto dest: index_put_render_error)
    next
      case (2 d s3)
      from 2(1) s1 have s3: "s3 = ?s1" by simp
      show ?thesis
      proof (cases rule: and_then_cases [OF 2(2)])
        case (1 e')
        from packed_rgb_any [OF 1(1)] 1(2) t1 s3 show ?thesis by auto
      next
        case (2 r3 s4)
        from packed_rgb_any(1) [OF 2(1)] have "s4 = s3" .
        with packed_normals_any [OF 2(2)] t1 s3 show ?thesis by auto
      qed
    qed
  qed
  then show "trace s' = trace s @ [PackedAlphaToVw]" "x = Inl e \<Longrightarrow> render_error e" by auto
qed

lemma render_per_obj_any:
  assumes "render_per_obj cfg a vb r s = (x, s')"
  shows "\<exists>es. trace s' = trace s @ es \<and> filter is_sampler_call es = []"
    and "x = Inl e \<Longrightarrow> render_error e"
proof -
  show "\<exists>es. trace s' = trace s @ es \<and> filter is_sampler_call es = []"
  proof (cases vb)
    case EmptyBuffer
    with assms show ?thesis by (simp add: render_per_obj_def)
  next
    case (BatchedBuffer b)
    with assms render_batched_any(1) [of cfg a b r s x s'] show ?thesis
      by (simp add: render_per_obj_def)
  next
    case (PackedBuffer b)
    with assms render_packed_any(1) [of cfg a b r s x s'] show ?thesis
      by (simp add: render_per_obj_def)
  qed
  show "render_error e" if "x = Inl e"
  proof (cases vb)
    case EmptyBuffer
    with assms that show ?thesis by (simp add: render_per_obj_def)
  next
    case (BatchedBuffer b)
    with assms that render_batched_any(2) [of cfg a b r s x s' e] show ?thesis
      by (simp add: render_per_obj_def)
  next
    case (PackedBuffer b)
    with assms that render_packed_any(2) [of cfg a b r s x s' e] show ?thesis
      by (simp add: render_per_obj_def)
  qed
qed

section \<open>Dispatch on the query mode\<close>

lemma dispatch_query_unimplemented:
  "query_mode cfg \<in> set unimplemented_query_modes
     \<Longrightarrow> dispatch_query c cfg rt i s = (Inl NotImplementedError, s)"
  by (auto simp: dispatch_query_def unimplemented_query_modes_def Let_def)

lemma dispatch_query_unknown:
  "query_mode cfg \<notin> set implemented_query_modes \<Longrightarrow> query_mode cfg \<notin> set unimplemented_query_modes
     \<Longrightarrow> dispatch_query c cfg rt i s = (Inl (RuntimeError (''Invalid query_mode='' @ query_mode cfg)), s)"
  by (auto simp: dispatch_query_def unimplemented_query_modes_def implemented_query_modes_def Let_def)

lemma dispatch_query_implemented:
  "query_mode cfg \<in> set implemented_query_modes
     \<Longrightarrow> \<exists>vb qd. dispatch_query c cfg rt i s = (Inr (vb, qd), emit (SamplerCall (query_mode cfg)) s)"
  by (auto simp: dispatch_query_def implemented_query_modes_def Let_def)

lemma ray_query_dispatch_error:
  assumes res: "resolve_inputs c ri_opt rt_opt s = (Inr rt, s0)"
    and nz: "num_rays rt \<noteq> 0"
    and dok: "rd \<longrightarrow> get_forward_inv_s c cfg \<noteq> 0"
    and rok: "rp \<longrightarrow> ri_opt = Some ri"
    and dq: "\<And>s3. dispatch_query c cfg rt (get_forward_inv_s c cfg) s3 = (Inl e, s3)"
  shows "\<exists>s3. ray_query c s ri_opt rt_opt cfg rb rd rp = (Inl e, s3)
           \<and> (\<exists>es. trace s3 = trace s @ es \<and> filter is_sampler_call es = [])"
proof -
  let ?i = "get_forward_inv_s c cfg"
  let ?s1 = "s0\<lparr>store := store s0 @ (if rb then [EmptyBuffer] else [])\<rparr>"
  note RI = resolve_inputs_Inr [OF res]
  from prepare_details_ok [OF dok] obtain d s2 where
    pd: "prepare_details rd ?i ?s1 = (Inr d, s2)" by blast
  note PD = prepare_details_Inr [OF pd]
  have pr: "prepare_rendered rp cfg ri_opt s2 =
      (Inr (if rp then Some (zero_rendered cfg ri) else None), s2)"
    using rok by (auto simp: prepare_rendered_def)
  have rq: "ray_query c s ri_opt rt_opt cfg rb rd rp = (Inl e, s2)"
    using res nz pd pr dq [of s2] by (simp add: ray_query_def prepare_buffer_eq Let_def)
  from RI(7) obtain es0 where es0: "trace s0 = trace s @ es0" "filter is_sampler_call es0 = []"
    by blast
  from PD(7) obtain es1 where es1: "trace s2 = trace ?s1 @ es1" "filter is_sampler_call es1 = []"
    by blast
  have "trace s2 = trace s @ (es0 @ es1)" "filter is_sampler_call (es0 @ es1) = []"
    using es0 es1 by simp_all
  with rq show ?thesis by blast
qed

lemma new_events_append: "trace s' = trace s @ es \<Longrightarrow> new_events s s' = es"
  by (simp add: new_events_def)

lemma tail_any:
  assumes "and_then (calc_details c cfg rt qd d s5)
        (\<lambda>dopt1 s6. case ropt of
             None \<Rightarrow> (Inr (F dopt1), s6)
           | Some r \<Rightarrow> and_then (render_per_obj cfg a vb r s6)
               (\<lambda>r1 s7. (Inr (G dopt1 r1), s7))) = (x, s')"
  shows "(\<forall>e. x = Inl e \<longrightarrow> render_error e)
      \<and> (\<exists>es2. trace s' = trace s5 @ es2 \<and> filter is_sampler_call es2 = [])"
proof (cases rule: and_then_cases [OF assms])
  case (1 e)
  from calc_details_any [OF 1(1)] 1(2) show ?thesis
    by (auto simp: render_error_iff)
next
  case (2 d1 s6)
  from calc_details_any(1) [OF 2(1)] obtain esa where
    esa: "trace s6 = trace s5 @ esa" "filter is_sampler_call esa = []" by blast
  show ?thesis
  proof (cases ropt)
    case None
    with 2(2) esa show ?thesis by auto
  next
    case (Some r)
    with 2(2) have B: "and_then (render_per_obj cfg a vb r s6)
             (\<lambda>r1 s7. (Inr (G d1 r1), s7)) = (x, s')"
      by simp
    show ?thesis
    proof (cases rule: and_then_cases [OF B])
      case (1 e)
      from render_per_obj_any [OF 1(1)] 1(2) obtain esb where
        "trace s' = trace s6 @ esb" "filter is_sampler_call esb = []" "render_error e"
        by blast
      with esa 1(2) have "trace s' = trace s5 @ (esa @ esb)"
        "filter is_sampler_call (esa @ esb) = []" by simp_all
      with \<open>render_error e\<close> 1(2) show ?thesis by blast
    next
      case (2 r1 s7)
      from render_per_obj_any(1) [OF 2(1)] obtain esb where
        "trace s7 = trace s6 @ esb" "filter is_sampler_call esb = []" by blast
      with esa 2(2) have "trace s' = trace s5 @ (esa @ esb)"
        "filter is_sampler_call (esa @ esb) = []" by auto
      with 2(2) show ?thesis by blast
    qed
  qed
qed

lemma ray_query_implemented:
  assumes res: "resolve_inputs c ri_opt rt_opt s = (Inr rt, s0)"
    and nz: "num_rays rt \<noteq> 0"
    and dok: "rd \<longrightarrow> get_forward_inv_s c cfg \<noteq> 0"
    and rok: "rp \<longrightarrow> ri_opt = Some ri"
    and im: "query_mode cfg \<in> set implemented_query_modes"
    and rq: "ray_query c s ri_opt rt_opt cfg rb rd rp = (x, s')"
  shows "x \<noteq> Inl NotImplementedError"
    and "x \<noteq> Inl (RuntimeError (''Invalid query_mode='' @ query_mode cfg))"
    and "filter is_sampler_call (new_events s s') = [SamplerCall (query_mode cfg)]"
proof -
  let ?i = "get_forward_inv_s c cfg"
  let ?s1 = "s0\<lparr>store := store s0 @ (if rb then [EmptyBuffer] else [])\<rparr>"
  note RI = resolve_inputs_Inr [OF res]
  from prepare_details_ok [OF dok] obtain d s2 where
    pd: "prepare_details rd ?i ?s1 = (Inr d, s2)" by blast
  note PD = prepare_details_Inr [OF pd]
  define ropt where "ropt = (if rp then Some (zero_rendered cfg ri) else None)"
  have pr: "prepare_rendered rp cfg ri_opt s2 = (Inr ropt, s2)"
    using rok by (auto simp: prepare_rendered_def ropt_def)
  from dispatch_query_implemented [OF im] obtain vb qd where
    dq: "dispatch_query c cfg rt ?i s2 = (Inr (vb, qd), emit (SamplerCall (query_mode cfg)) s2)"
    by blast
  let ?s5 = "(emit (SamplerCall (query_mode cfg)) s2)
               \<lparr>store := store (emit (SamplerCall (query_mode cfg)) s2) @ [vb]\<rparr>"
  note rq' = rq [unfolded ray_query_def Let_def, simplified res nz pd pr dq prepare_buffer_eq
      and_then_Inr if_False case_prod_conv]
  from RI(7) obtain es0 where es0: "trace s0 = trace s @ es0" "filter is_sampler_call es0 = []"
    by blast
  from PD(7) obtain es1 where es1: "trace s2 = trace ?s1 @ es1" "filter is_sampler_call es1 = []"
    by blast
  have t5: "trace ?s5 = trace s @ (es0 @ es1 @ [SamplerCall (query_mode cfg)])"
    using es0 es1 by (simp add: emit_def)
  have main: "(\<forall>e. x = Inl e \<longrightarrow> render_error e)
      \<and> (\<exists>es2. trace s' = trace ?s5 @ es2 \<and> filter is_sampler_call es2 = [])"
    by (rule tail_any [OF rq'])
  from main show "x \<noteq> Inl NotImplementedError" by auto
  from main show "x \<noteq> Inl (RuntimeError (''Invalid query_mode='' @ query_mode cfg))" by auto
  from main obtain es2 where "trace s' = trace ?s5 @ es2" "filter is_sampler_call es2 = []"
    by blast
  with t5 have "trace s' = trace s @ (es0 @ es1 @ [SamplerCall (query_mode cfg)] @ es2)"
    by simp
  from new_events_append [OF this] es0 es1 \<open>filter is_sampler_call es2 = []\<close>
  show "filter is_sampler_call (new_events s s') = [SamplerCall (query_mode cfg)]" by simp
qed

lemmas eval_defs = ray_query_def resolve_inputs_def prepare_buffer_def prepare_details_def
  prepare_rendered_def dispatch_query_def calc_details_def render_per_obj_def
  get_forward_inv_s_def zero_rendered_def zeros_def new_events_def emit_def Let_def
  sampler_result_def




section \<open>Calls that sample nothing\<close>

text \<open>
  Claim C2, as stated, fails for rays that are tested but do not hit: whether a tested
  ray hits is only known from the sampler, so the sampler is called. Two rays are tested
  here, and sphere tracing returns the empty buffer.
\<close>

theorem zero_hit_invokes_sampler:
  "num_rays rt2 = 2
   \<and> sampler_result c0 cfg_sphere rt2 st0 = Inr (EmptyBuffer, \<lparr>qd_entries = []\<rparr>)
   \<and> filter is_sampler_call
       (new_events st0 (snd (ray_query c0 st0 (Some rays3) (Some rt2) cfg_sphere True False True)))
       = [SamplerCall ''sphere_trace'']"
  by (simp add: eval_defs rt2_def cfg_sphere_def cfg0_def c0_def st0_def rays3_def)

text \<open>
  Claim C2, amended. A call with no tested ray, or one whose sampler returns the empty
  buffer, is not an error (when the outputs asked for can be built: a ray input for the
  rendered arrays, the details' inputs for the details). It returns a
  \<^verbatim>\<open>volume_buffer\<close> of type \<^verbatim>\<open>empty\<close> if the buffer is asked for and zero-filled
  rendered arrays over the shape of the ray batch if per-object rendering is asked for,
  and never calls the compositing kernels. With no tested ray no sampler is called
  either; with tested rays that hit nothing the configured sampler is called once.
\<close>

theorem empty_ray_query:
  assumes res: "resolve_inputs c ri_opt rt_opt s = (Inr rt, s0)"
    and emp: "num_rays rt = 0 \<or> sampler_result c cfg rt s = Inr (EmptyBuffer, qd)"
    and dok: "rd \<longrightarrow> details_available c cfg rt s"
    and rok: "rp \<longrightarrow> ri_opt = Some ri"
  shows "\<exists>raw s'. ray_query c s ri_opt rt_opt cfg rb rd rp = (Inr raw, s')
      \<and> (if rb then (\<exists>a. rr_volume_buffer raw = Some a \<and> a < length (store s')
                        \<and> store s' ! a = EmptyBuffer)
          else rr_volume_buffer raw = None)
      \<and> rr_rendered raw = (if rp then Some (zero_rendered cfg ri) else None)
      \<and> filter is_compositor_call (new_events s s') = []
      \<and> filter is_sampler_call (new_events s s')
           = (if num_rays rt = 0 then [] else [SamplerCall (query_mode cfg)])"
proof (cases "num_rays rt = 0")
  case True
  have "rd \<longrightarrow> get_forward_inv_s c cfg \<noteq> 0"
    using dok by (simp add: details_available_def)
  from ray_query_zero [OF res True this rok, of rb] obtain d s3 es where
    rq: "ray_query c s ri_opt rt_opt cfg rb rd rp =
            (Inr \<lparr>rr_volume_buffer = (if rb then Some (length (store s)) else None),
                  rr_details = d,
                  rr_rendered = (if rp then Some (zero_rendered cfg ri) else None)\<rparr>, s3)"
    and st: "store s3 = store s @ (if rb then [EmptyBuffer] else [])"
    and tr: "trace s3 = trace s @ es" "filter is_sampler_call es = []"
      "filter is_compositor_call es = []"
    by blast
  from new_events_append [OF tr(1)] tr(2,3) True st rq show ?thesis
    by (auto simp: nth_append)
next
  case False
  with emp have sr: "sampler_result c cfg rt s = Inr (EmptyBuffer, qd)" by simp
  from ray_query_hit [OF res False sr dok rok, of rb] obtain d s6 es where
    rq: "ray_query c s ri_opt rt_opt cfg rb rd rp =
            (if rp then
               and_then (render_per_obj cfg (length (store s6) - 1) EmptyBuffer (zero_rendered cfg ri) s6)
                 (\<lambda>r1 s7. (Inr \<lparr>rr_volume_buffer = (if rb then Some (length (store s6) - 1) else None),
                                 rr_details = d, rr_rendered = Some r1\<rparr>, s7))
             else (Inr \<lparr>rr_volume_buffer = (if rb then Some (length (store s6) - 1) else None),
                        rr_details = d, rr_rendered = None\<rparr>, s6))"
    and st: "store s6 = store s @ (if rb then [EmptyBuffer] else []) @ [EmptyBuffer]"
    and tr: "trace s6 = trace s @ es" "filter is_sampler_call es = [SamplerCall (query_mode cfg)]"
      "filter is_compositor_call es = []"
    by blast
  have rq': "ray_query c s ri_opt rt_opt cfg rb rd rp =
      (Inr \<lparr>rr_volume_buffer = (if rb then Some (length (store s6) - 1) else None),
            rr_details = d,
            rr_rendered = (if rp then Some (zero_rendered cfg ri) else None)\<rparr>, s6)"
    using rq by (simp add: render_per_obj_def)
  have "store s6 ! (length (store s6) - 1) = EmptyBuffer"
    using st by (simp add: nth_append)
  moreover have "length (store s6) - 1 < length (store s6)" using st by simp
  ultimately show ?thesis
    using rq' new_events_append [OF tr(1)] tr(2,3) False by auto
qed

theorem empty_ray_query_witness:
  "(\<exists>raw s'. ray_query c0 st0 (Some rays3) (Some rt0) cfg0 True False True = (Inr raw, s')
      \<and> (\<exists>a. rr_volume_buffer raw = Some a \<and> a < length (store s') \<and> store s' ! a = EmptyBuffer)
      \<and> rr_rendered raw = Some (zero_rendered cfg0 rays3)
      \<and> filter is_compositor_call (new_events st0 s') = []
      \<and> filter is_sampler_call (new_events st0 s') = [])
   \<and> (\<exists>raw s'. ray_query c0 st0 (Some rays3) (Some rt2) cfg_sphere True False True = (Inr raw, s')
      \<and> (\<exists>a. rr_volume_buffer raw = Some a \<and> a < length (store s') \<and> store s' ! a = EmptyBuffer)
      \<and> rr_rendered raw = Some (zero_rendered cfg_sphere rays3)
      \<and> filter is_compositor_call (new_events st0 s') = []
      \<and> filter is_sampler_call (new_events st0 s') = [SamplerCall ''sphere_trace''])
   \<and> nd_data (mask_volume (zero_rendered cfg0 rays3)) = [0, 0, 0]
   \<and> nd_shape (mask_volume (zero_rendered cfg0 rays3)) = [3]"
proof -
  have res0: "resolve_inputs c0 (Some rays3) (Some rt0) st0 = (Inr rt0, st0)"
    by (simp add: resolve_inputs_def)
  have res2: "resolve_inputs c0 (Some rays3) (Some rt2) st0 = (Inr rt2, st0)"
    by (simp add: resolve_inputs_def)
  have e0: "num_rays rt0 = 0 \<or> sampler_result c0 cfg0 rt0 st0 = Inr (EmptyBuffer, \<lparr>qd_entries = []\<rparr>)"
    by (simp add: rt0_def)
  have e2: "num_rays rt2 = 0
      \<or> sampler_result c0 cfg_sphere rt2 st0 = Inr (EmptyBuffer, \<lparr>qd_entries = []\<rparr>)"
    by (simp add: sampler_result_def dispatch_query_def cfg_sphere_def cfg0_def c0_def Let_def)
  have dok: "False \<longrightarrow> details_available c0 cfg rt st0" for cfg rt by simp
  have rok: "True \<longrightarrow> Some rays3 = Some rays3" by simp
  have q: "query_mode cfg_sphere = ''sphere_trace''" by (simp add: cfg_sphere_def)
  have z: "nd_data (mask_volume (zero_rendered cfg0 rays3)) = [0, 0, 0]"
    "nd_shape (mask_volume (zero_rendered cfg0 rays3)) = [3]"
    by (simp_all add: zero_rendered_def zeros_def rays3_def Let_def numeral_3_eq_3)
  from empty_ray_query [OF res0 e0 dok rok, of True]
    empty_ray_query [OF res2 e2 dok rok, of True] q z
  show ?thesis by (simp add: rt0_def rt2_def)
qed

end
